theory Spec2Isabelle
  imports Complex_Main "HOL-Library.AList"
begin

section \<open>Strings and Python's string primitives\<close>

text \<open>
  The generator (\<^verbatim>\<open>src/theme_generator.py\<close>) works on Python \<^verbatim>\<open>str\<close> values. They are
  modelled as \<^typ>\<open>string\<close>, a list of 8-bit characters, read as the code points
  U+0000 to U+00FF. Code points above U+00FF are outside the model.
\<close>

text \<open>
  \<^verbatim>\<open>str.strip()\<close> without argument removes the characters for which
  \<^verbatim>\<open>str.isspace\<close> holds. Below U+0100 these are TAB, LF, VT, FF, CR, the four
  separators FS, GS, RS, US, the space, NEL (U+0085) and the no-break space (U+00A0).
\<close>

definition is_space :: "char \<Rightarrow> bool" where
  "is_space c \<longleftrightarrow> c \<in> set [CHR 0x09, CHR 0x0A, CHR 0x0B, CHR 0x0C, CHR 0x0D,
                            CHR 0x1C, CHR 0x1D, CHR 0x1E, CHR 0x1F, CHR 0x20,
                            CHR 0x85, CHR 0xA0]"

text \<open>The characters removed by \<^verbatim>\<open>.strip('"\'')\<close>: the double and the single quote.\<close>

definition is_quote :: "char \<Rightarrow> bool" where
  "is_quote c \<longleftrightarrow> c = CHR 0x22 \<or> c = CHR 0x27"

text \<open>\<^verbatim>\<open>s.strip(chars)\<close>: drop the characters of the class from both ends.\<close>

definition strip :: "(char \<Rightarrow> bool) \<Rightarrow> string \<Rightarrow> string" where
  "strip p s = rev (dropWhile p (rev (dropWhile p s)))"

text \<open>\<^verbatim>\<open>s.startswith(t)\<close>.\<close>

definition startswith :: "string \<Rightarrow> string \<Rightarrow> bool" where
  "startswith s t \<longleftrightarrow> take (length t) s = t"

text \<open>The slice \<^verbatim>\<open>s[i:j]\<close> for \<^verbatim>\<open>0 <= i <= j\<close>.\<close>

definition slice :: "string \<Rightarrow> nat \<Rightarrow> nat \<Rightarrow> string" where
  "slice s i j = take (j - i) (drop i s)"

subsection \<open>\<^verbatim>\<open>int(s, 16)\<close>\<close>

text \<open>
  \<^verbatim>\<open>int(s, 16)\<close> is CPython's \<^verbatim>\<open>PyLong_FromString\<close> with base 16. It is more liberal
  than "a run of hexadecimal digits": it skips white space on both sides, takes one
  sign, takes a \<^verbatim>\<open>0x\<close> or \<^verbatim>\<open>0X\<close> prefix (with one underscore after it), and allows
  single underscores between digits. It raises \<^verbatim>\<open>ValueError\<close> otherwise, which is the
  value \<^term>\<open>None\<close> here.

  The white space it skips is that of C's \<^verbatim>\<open>isspace\<close> in the C locale (TAB, LF, VT, FF,
  CR, space); before parsing, CPython replaces the non-ASCII white space of the string
  (here NEL and the no-break space) by a space.
\<close>

definition is_int_space :: "char \<Rightarrow> bool" where
  "is_int_space c \<longleftrightarrow> c \<in> set [CHR 0x09, CHR 0x0A, CHR 0x0B, CHR 0x0C, CHR 0x0D, CHR 0x20,
                                CHR 0x85, CHR 0xA0]"

definition hex_digit_value :: "char \<Rightarrow> nat option" where
  "hex_digit_value c =
     map_of [(CHR ''0'', 0), (CHR ''1'', 1), (CHR ''2'', 2), (CHR ''3'', 3), (CHR ''4'', 4),
             (CHR ''5'', 5), (CHR ''6'', 6), (CHR ''7'', 7), (CHR ''8'', 8), (CHR ''9'', 9),
             (CHR ''a'', 10), (CHR ''b'', 11), (CHR ''c'', 12), (CHR ''d'', 13),
             (CHR ''e'', 14), (CHR ''f'', 15),
             (CHR ''A'', 10), (CHR ''B'', 11), (CHR ''C'', 12), (CHR ''D'', 13),
             (CHR ''E'', 14), (CHR ''F'', 15)] c"

definition is_hex_digit :: "char \<Rightarrow> bool" where
  "is_hex_digit c \<longleftrightarrow> hex_digit_value c \<noteq> None"

definition is_digit_or_underscore :: "char \<Rightarrow> bool" where
  "is_digit_or_underscore c \<longleftrightarrow> is_hex_digit c \<or> c = CHR ''_''"

text \<open>Two underscores in a row.\<close>

fun double_underscore :: "string \<Rightarrow> bool" where
  "double_underscore (a # b # cs) =
     ((a = CHR ''_'' \<and> b = CHR ''_'') \<or> double_underscore (b # cs))"
| "double_underscore _ = False"

text \<open>The value of a run of digits and underscores, most significant digit first.\<close>

definition digits_value :: "string \<Rightarrow> nat" where
  "digits_value ds =
     foldl (\<lambda>acc c. case hex_digit_value c of None \<Rightarrow> acc | Some d \<Rightarrow> 16 * acc + d) 0 ds"

text \<open>The sign: \<^verbatim>\<open>+\<close> or \<^verbatim>\<open>-\<close>, at most one.\<close>

definition take_sign :: "string \<Rightarrow> bool \<times> string" where
  "take_sign s =
     (case s of
        [] \<Rightarrow> (False, [])
      | c # r \<Rightarrow> if c = CHR ''+'' then (False, r)
                 else if c = CHR ''-'' then (True, r)
                 else (False, s))"

text \<open>The base prefix, and the one underscore allowed after it.\<close>

definition take_prefix :: "string \<Rightarrow> string" where
  "take_prefix s =
     (if startswith s ''0x'' \<or> startswith s ''0X''
      then (let r = drop 2 s in if startswith r ''_'' then drop 1 r else r)
      else s)"

definition int16 :: "string \<Rightarrow> int option" where
  "int16 s =
     (let (negative, s1) = take_sign (dropWhile is_int_space s);
          s2 = take_prefix s1;
          body = takeWhile is_digit_or_underscore s2;
          rest = dropWhile is_digit_or_underscore s2
      in if body = [] \<or> hd body = CHR ''_'' \<or> last body = CHR ''_'' \<or> double_underscore body
            \<or> dropWhile is_int_space rest \<noteq> []
         then None
         else Some (if negative then - int (digits_value body) else int (digits_value body)))"

section \<open>\<^verbatim>\<open>normalize_hex_color\<close>\<close>

text \<open>
  \<^verbatim>\<open>normalize_hex_color(color_value)\<close>, lines 32 to 60. The result \<^verbatim>\<open>None\<close> is
  \<^term>\<open>None\<close>. The function never changes the case of a letter.
\<close>

definition normalize_hex_color :: "string \<Rightarrow> string option" where
  "normalize_hex_color color_value =
     (if color_value = [] then None
      else
        let v1 = strip is_quote (strip is_space color_value);
            v2 = (if startswith v1 ''0x'' then CHR ''#'' # drop 2 v1 else v1);
            v3 = (if \<not> startswith v2 ''#'' then CHR ''#'' # v2 else v2);
            v4 = (if length v3 = 4 then CHR ''#'' # concat (map (\<lambda>c. [c, c]) (drop 1 v3)) else v3)
        in if length v4 \<noteq> 7 then None
           else (case int16 (drop 1 v4) of None \<Rightarrow> None | Some _ \<Rightarrow> Some v4))"

definition is_valid_hex_color :: "string \<Rightarrow> bool" where
  "is_valid_hex_color hex_color \<longleftrightarrow> normalize_hex_color hex_color \<noteq> None"

section \<open>Channels\<close>

text \<open>
  \<^verbatim>\<open>hex_to_rgb(hex_color)\<close>, lines 115 to 126: the three two-character slices of the
  normalized value, each read by \<^verbatim>\<open>int(_, 16)\<close>; a \<^verbatim>\<open>ValueError\<close> of any of them is
  caught and gives \<^verbatim>\<open>(0, 0, 0)\<close>.
\<close>

definition hex_to_rgb :: "string \<Rightarrow> int \<times> int \<times> int" where
  "hex_to_rgb hex_color =
     (case normalize_hex_color hex_color of
        None \<Rightarrow> (0, 0, 0)
      | Some normalized \<Rightarrow>
          (case int16 (slice normalized 1 3) of
             None \<Rightarrow> (0, 0, 0)
           | Some r \<Rightarrow>
               (case int16 (slice normalized 3 5) of
                  None \<Rightarrow> (0, 0, 0)
                | Some g \<Rightarrow>
                    (case int16 (slice normalized 5 7) of
                       None \<Rightarrow> (0, 0, 0)
                     | Some b \<Rightarrow> (r, g, b)))))"

text \<open>The lower-case hexadecimal digits of a natural number, at least one.\<close>

definition hex_char :: "nat \<Rightarrow> char" where
  "hex_char d = ''0123456789abcdef'' ! d"

fun hex_of_nat :: "nat \<Rightarrow> string" where
  "hex_of_nat n = (if n < 16 then [hex_char n] else hex_of_nat (n div 16) @ [hex_char (n mod 16)])"

declare hex_of_nat.simps [simp del]

text \<open>
  The format \<^verbatim>\<open>{n:02x}\<close>: the digits padded with zeros to two characters; for a
  negative number the sign counts as one of the two.
\<close>

definition format_02x :: "int \<Rightarrow> string" where
  "format_02x n =
     (if n < 0 then CHR ''-'' # hex_of_nat (nat (- n))
      else (let ds = hex_of_nat (nat n) in if length ds < 2 then CHR ''0'' # ds else ds))"

text \<open>\<^verbatim>\<open>rgb_to_hex(r, g, b)\<close>, line 128.\<close>

definition rgb_to_hex :: "int \<Rightarrow> int \<Rightarrow> int \<Rightarrow> string" where
  "rgb_to_hex r g b = CHR ''#'' # format_02x r @ format_02x g @ format_02x b"

section \<open>Classification and derived surface colors\<close>

text \<open>
  Python's floats are modelled as real numbers: the arithmetic of the model is exact,
  that of the program is rounded to IEEE doubles. The two agree except where an exact
  value lies on a boundary that the rounding crosses: a brightness of exactly 0.5
  (\<^verbatim>\<open>#da3af8\<close> is DARK here, and LIGHT in doubles, where the brightness is
  0.5000000000000001), or a product that is an integer (170 times 0.7 is 119 here, and
  118.99999999999999 in doubles, which \<^verbatim>\<open>int\<close> truncates to 118). Every concrete value
  and every comparison evaluated below is away from such a boundary.

  \<^verbatim>\<open>is_light_theme(background_color)\<close>, lines 132 to 140.
\<close>

definition is_light_theme :: "string \<Rightarrow> bool" where
  "is_light_theme background_color =
     (case normalize_hex_color background_color of
        None \<Rightarrow> False
      | Some normalized \<Rightarrow>
          (case hex_to_rgb normalized of
             (r, g, b) \<Rightarrow>
               (0.299 * real_of_int r + 0.587 * real_of_int g + 0.114 * real_of_int b) / 255
                 > 0.5))"

text \<open>\<^verbatim>\<open>int(x)\<close> of a float: rounding towards zero.\<close>

definition trunc :: "real \<Rightarrow> int" where
  "trunc x = (if 0 \<le> x then \<lfloor>x\<rfloor> else \<lceil>x\<rceil>)"

text \<open>\<^verbatim>\<open>adjust_color_for_theme(hex_color, is_light, factor)\<close>, lines 142 to 161.\<close>

definition adjust_color_for_theme :: "string \<Rightarrow> bool \<Rightarrow> real \<Rightarrow> string" where
  "adjust_color_for_theme hex_color is_light factor =
     (case normalize_hex_color hex_color of
        None \<Rightarrow> hex_color
      | Some normalized \<Rightarrow>
          (case hex_to_rgb normalized of
             (r, g, b) \<Rightarrow>
               if is_light
               then rgb_to_hex (max 0 (trunc (real_of_int r * (1 - factor))))
                               (max 0 (trunc (real_of_int g * (1 - factor))))
                               (max 0 (trunc (real_of_int b * (1 - factor))))
               else rgb_to_hex (min 255 (trunc (real_of_int r * (1 + factor))))
                               (min 255 (trunc (real_of_int g * (1 + factor))))
                               (min 255 (trunc (real_of_int b * (1 + factor))))))"

text \<open>
  The palette dictionary \<^verbatim>\<open>colors\<close>: the scalar entries (\<^verbatim>\<open>background\<close>,
  \<^verbatim>\<open>foreground\<close>, \<^verbatim>\<open>cursor\<close>) and the values of the keys \<^verbatim>\<open>normal\<close> and
  \<^verbatim>\<open>bright\<close>, two nested dictionaries, each of which may be absent. The raw palette of
  the parser and the validated palette have this one type, as in the source.
\<close>

record color_dict =
  scalars :: "string \<rightharpoonup> string"
  normal_dict :: "(string \<rightharpoonup> string) option"
  bright_dict :: "(string \<rightharpoonup> string) option"

text \<open>\<^verbatim>\<open>d.get(key, default)\<close>.\<close>

definition get_or :: "(string \<rightharpoonup> 'a) \<Rightarrow> string \<Rightarrow> 'a \<Rightarrow> 'a" where
  "get_or d key dflt = (case d key of None \<Rightarrow> dflt | Some v \<Rightarrow> v)"

text \<open>\<^verbatim>\<open>colors.get('normal', {})\<close> and \<^verbatim>\<open>colors.get('bright', {})\<close>.\<close>

definition section_or_empty :: "(string \<rightharpoonup> string) option \<Rightarrow> (string \<rightharpoonup> string)" where
  "section_or_empty d = (case d of None \<Rightarrow> Map.empty | Some m \<Rightarrow> m)"

text \<open>The dictionary returned by \<^verbatim>\<open>generate_ui_colors\<close>.\<close>

record ui_colors =
  side_bg :: string
  panel_bg :: string
  tab_bg :: string
  input_bg :: string
  list_bg :: string
  hover_bg :: string
  border_color :: string

text \<open>\<^verbatim>\<open>generate_ui_colors(colors, is_light)\<close>, lines 163 to 197.\<close>

definition generate_ui_colors :: "color_dict \<Rightarrow> bool \<Rightarrow> ui_colors" where
  "generate_ui_colors colors is_light =
     (let bg = get_or (scalars colors) ''background'' ''#1e1e2e''
      in if is_light
         then \<lparr> side_bg = adjust_color_for_theme bg is_light 0.15,
                panel_bg = adjust_color_for_theme bg is_light 0.2,
                tab_bg = adjust_color_for_theme bg is_light 0.1,
                input_bg = adjust_color_for_theme bg is_light 0.05,
                list_bg = adjust_color_for_theme bg is_light 0.1,
                hover_bg = adjust_color_for_theme bg is_light 0.2,
                border_color = adjust_color_for_theme bg is_light 0.3 \<rparr>
         else \<lparr> side_bg = adjust_color_for_theme bg is_light 0.1,
                panel_bg = adjust_color_for_theme bg is_light 0.15,
                tab_bg = adjust_color_for_theme bg is_light 0.05,
                input_bg = adjust_color_for_theme bg is_light 0.05,
                list_bg = adjust_color_for_theme bg is_light 0.1,
                hover_bg = adjust_color_for_theme bg is_light 0.15,
                border_color = adjust_color_for_theme bg is_light 0.2 \<rparr>)"

text \<open>
  The factor schedule of \<^const>\<open>generate_ui_colors\<close> as a table: the third argument of
  each of its calls of \<^const>\<open>adjust_color_for_theme\<close>, per classification.
\<close>

record factors =
  side_factor :: real
  panel_factor :: real
  tab_factor :: real
  input_factor :: real
  list_factor :: real
  hover_factor :: real
  border_factor :: real

definition factor_schedule :: "bool \<Rightarrow> factors" where
  "factor_schedule is_light =
     (if is_light
      then \<lparr> side_factor = 0.15, panel_factor = 0.2, tab_factor = 0.1, input_factor = 0.05,
             list_factor = 0.1, hover_factor = 0.2, border_factor = 0.3 \<rparr>
      else \<lparr> side_factor = 0.1, panel_factor = 0.15, tab_factor = 0.05, input_factor = 0.05,
             list_factor = 0.1, hover_factor = 0.15, border_factor = 0.2 \<rparr>)"

text \<open>The surfaces a schedule gives for a background.\<close>

definition surfaces_of :: "factors \<Rightarrow> string \<Rightarrow> bool \<Rightarrow> ui_colors" where
  "surfaces_of fs bg is_light =
     \<lparr> side_bg = adjust_color_for_theme bg is_light (side_factor fs),
       panel_bg = adjust_color_for_theme bg is_light (panel_factor fs),
       tab_bg = adjust_color_for_theme bg is_light (tab_factor fs),
       input_bg = adjust_color_for_theme bg is_light (input_factor fs),
       list_bg = adjust_color_for_theme bg is_light (list_factor fs),
       hover_bg = adjust_color_for_theme bg is_light (hover_factor fs),
       border_color = adjust_color_for_theme bg is_light (border_factor fs) \<rparr>"

section \<open>Contrast\<close>

text \<open>
  The inner function \<^verbatim>\<open>gamma_correct\<close> of \<^verbatim>\<open>get_luminance\<close>, line 81, with the module
  constants of lines 16 to 20. \<^verbatim>\<open>pow(x, 2.4)\<close> of a positive float is the real power.
\<close>

definition gamma_correct :: "real \<Rightarrow> real" where
  "gamma_correct c = (if c \<le> 0.03928 then c / 12.92 else ((c + 0.055) / 1.055) powr 2.4)"

text \<open>
  The inner function \<^verbatim>\<open>get_luminance\<close> of \<^verbatim>\<open>calculate_contrast_ratio\<close>, lines 69 to 90;
  a \<^verbatim>\<open>ValueError\<close> of \<^verbatim>\<open>int\<close> is caught and gives 0.
\<close>

definition get_luminance :: "string \<Rightarrow> real" where
  "get_luminance hex_color =
     (case normalize_hex_color hex_color of
        None \<Rightarrow> 0
      | Some normalized \<Rightarrow>
          (case int16 (slice normalized 1 3) of
             None \<Rightarrow> 0
           | Some r \<Rightarrow>
               (case int16 (slice normalized 3 5) of
                  None \<Rightarrow> 0
                | Some g \<Rightarrow>
                    (case int16 (slice normalized 5 7) of
                       None \<Rightarrow> 0
                     | Some b \<Rightarrow>
                         0.2126 * gamma_correct (real_of_int r / 255)
                         + 0.7152 * gamma_correct (real_of_int g / 255)
                         + 0.0722 * gamma_correct (real_of_int b / 255)))))"

text \<open>\<^verbatim>\<open>calculate_contrast_ratio(color1, color2)\<close>, lines 67 to 99.\<close>

definition calculate_contrast_ratio :: "string \<Rightarrow> string \<Rightarrow> real" where
  "calculate_contrast_ratio color1 color2 =
     (let lum1 = get_luminance color1; lum2 = get_luminance color2
      in if lum1 > lum2 then (lum1 + 0.05) / (lum2 + 0.05)
         else (lum2 + 0.05) / (lum1 + 0.05))"

definition MIN_READABLE_CONTRAST :: real where
  "MIN_READABLE_CONTRAST = 3.0"

definition MIN_ACCEPTABLE_CONTRAST :: real where
  "MIN_ACCEPTABLE_CONTRAST = 2.0"

section \<open>\<^verbatim>\<open>validate_and_fix_colors\<close>\<close>

text \<open>
  The dictionary \<^verbatim>\<open>fallback_colors\<close>, lines 202 to 225. It has no entry for the cursor.
\<close>

definition fallback_background :: string where
  "fallback_background = ''#282a36''"

definition fallback_foreground :: string where
  "fallback_foreground = ''#f8f8f2''"

definition fallback_scalars :: "string \<rightharpoonup> string" where
  "fallback_scalars =
     [''background'' \<mapsto> fallback_background, ''foreground'' \<mapsto> fallback_foreground]"

definition fallback_normal :: "string \<rightharpoonup> string" where
  "fallback_normal =
     [''black'' \<mapsto> ''#21222c'', ''red'' \<mapsto> ''#ff5555'', ''green'' \<mapsto> ''#50fa7b'',
      ''yellow'' \<mapsto> ''#f1fa8c'', ''blue'' \<mapsto> ''#bd93f9'', ''magenta'' \<mapsto> ''#ff79c6'',
      ''cyan'' \<mapsto> ''#8be9fd'', ''white'' \<mapsto> ''#f8f8f2'']"

definition fallback_bright :: "string \<rightharpoonup> string" where
  "fallback_bright =
     [''black'' \<mapsto> ''#6272a4'', ''red'' \<mapsto> ''#ff6e6e'', ''green'' \<mapsto> ''#69ff94'',
      ''yellow'' \<mapsto> ''#ffffa5'', ''blue'' \<mapsto> ''#d6acff'', ''magenta'' \<mapsto> ''#ff92df'',
      ''cyan'' \<mapsto> ''#a4ffff'', ''white'' \<mapsto> ''#ffffff'']"

text \<open>The slot names of the two loops over the ANSI colors, lines 251 and 266.\<close>

definition color_names :: "string list" where
  "color_names =
     [''black'', ''red'', ''green'', ''yellow'', ''blue'', ''magenta'', ''cyan'', ''white'']"

text \<open>
  The entries of \<^verbatim>\<open>issues_found\<close>. Each constructor stands for one of the message
  formats of the source, with the values it interpolates:
  \<^item> \<open>Invalid key value\<close> for \<^verbatim>\<open>"Invalid {key} color '{value}' - using fallback"\<close>,
  \<^item> \<open>Missing_derived key\<close> for \<^verbatim>\<open>"Missing {key} color - derived from foreground"\<close>,
  \<^item> \<open>Missing key\<close> for \<^verbatim>\<open>"Missing {key} color - using fallback"\<close>,
  \<^item> \<open>Low_contrast ratio\<close> for
    \<^verbatim>\<open>"Low contrast ratio ({contrast:.2f}) between background and foreground"\<close>,
  \<^item> \<open>Applied_fallback\<close> for \<^verbatim>\<open>"Applied fallback colors due to extremely low contrast"\<close>.
\<close>

datatype issue =
    Invalid string string
  | Missing_derived string
  | Missing string
  | Low_contrast real
  | Applied_fallback

text \<open>A subscript \<^verbatim>\<open>d[key]\<close> of a dictionary without the key raises \<^verbatim>\<open>KeyError\<close>.\<close>

datatype py_error = KeyError

text \<open>
  The loop over \<^verbatim>\<open>['background', 'foreground', 'cursor']\<close>, lines 231 to 246. The state is
  the pair of \<^verbatim>\<open>fixed_colors\<close> (its scalar entries) and \<^verbatim>\<open>issues_found\<close>. The subscript
  \<^verbatim>\<open>fixed_colors['foreground']\<close> of line 242 is guarded by the test of line 241.
\<close>

fun validate_primary ::
  "(string \<rightharpoonup> string) \<Rightarrow> string list \<Rightarrow> (string \<rightharpoonup> string) \<times> issue list
     \<Rightarrow> (string \<rightharpoonup> string) \<times> issue list" where
  "validate_primary colors [] st = st"
| "validate_primary colors (key # keys) (fixed, issues) =
     validate_primary colors keys
       (case colors key of
          Some v \<Rightarrow>
            (case normalize_hex_color v of
               Some normalized \<Rightarrow> (fixed(key \<mapsto> normalized), issues)
             | None \<Rightarrow>
                 (fixed(key \<mapsto> get_or fallback_scalars key fallback_background),
                  issues @ [Invalid key v]))
        | None \<Rightarrow>
            if key = ''cursor'' \<and> fixed ''foreground'' \<noteq> None
            then (fixed(key \<mapsto> the (fixed ''foreground'')), issues @ [Missing_derived key])
            else (fixed(key \<mapsto> get_or fallback_scalars key fallback_background),
                  issues @ [Missing key]))"

text \<open>
  The loops over the eight slots of \<^verbatim>\<open>normal\<close> and of \<^verbatim>\<open>bright\<close>, lines 249 to 276;
  \<open>sec\<close> is the name of the section, \<open>fallback\<close> its fallback dictionary, \<open>src\<close> the
  section of the raw palette.
\<close>

fun validate_section ::
  "string \<Rightarrow> (string \<rightharpoonup> string) \<Rightarrow> (string \<rightharpoonup> string) \<Rightarrow> string list
     \<Rightarrow> (string \<rightharpoonup> string) \<times> issue list
     \<Rightarrow> py_error + ((string \<rightharpoonup> string) \<times> issue list)" where
  "validate_section sec fallback src [] st = Inr st"
| "validate_section sec fallback src (color_name # names) (fixed, issues) =
     (case src color_name of
        Some v \<Rightarrow>
          (case normalize_hex_color v of
             Some normalized \<Rightarrow>
               validate_section sec fallback src names
                 (fixed(color_name \<mapsto> normalized), issues)
           | None \<Rightarrow>
               (case fallback color_name of
                  None \<Rightarrow> Inl KeyError
                | Some d \<Rightarrow>
                    validate_section sec fallback src names
                      (fixed(color_name \<mapsto> d),
                       issues @ [Invalid (sec @ ''.'' @ color_name) v])))
      | None \<Rightarrow>
          (case fallback color_name of
             None \<Rightarrow> Inl KeyError
           | Some d \<Rightarrow>
               validate_section sec fallback src names
                 (fixed(color_name \<mapsto> d), issues @ [Missing (sec @ ''.'' @ color_name)])))"

text \<open>Lines 227 to 276: every slot resolved, before the contrast check.\<close>

definition resolve_slots :: "color_dict \<Rightarrow> py_error + (color_dict \<times> issue list)" where
  "resolve_slots colors =
     (case validate_primary (scalars colors) [''background'', ''foreground'', ''cursor'']
             (Map.empty, []) of
        (fixed_scalars, issues1) \<Rightarrow>
          (case validate_section ''normal'' fallback_normal (section_or_empty (normal_dict colors))
                  color_names (Map.empty, issues1) of
             Inl e \<Rightarrow> Inl e
           | Inr (fixed_normal, issues2) \<Rightarrow>
               (case validate_section ''bright'' fallback_bright
                       (section_or_empty (bright_dict colors)) color_names (Map.empty, issues2) of
                  Inl e \<Rightarrow> Inl e
                | Inr (fixed_bright, issues3) \<Rightarrow>
                    Inr (\<lparr> scalars = fixed_scalars, normal_dict = Some fixed_normal,
                            bright_dict = Some fixed_bright \<rparr>, issues3))))"

text \<open>Lines 278 to 291: the contrast check on the resolved background and foreground.\<close>

definition check_contrast ::
  "color_dict \<times> issue list \<Rightarrow> py_error + (color_dict \<times> issue list)" where
  "check_contrast st =
     (case st of
        (fixed_colors, issues_found) \<Rightarrow>
          (case scalars fixed_colors ''background'' of
             None \<Rightarrow> Inl KeyError
           | Some bg_color \<Rightarrow>
               (case scalars fixed_colors ''foreground'' of
                  None \<Rightarrow> Inl KeyError
                | Some fg_color \<Rightarrow>
                    (let contrast = calculate_contrast_ratio bg_color fg_color
                     in if contrast < MIN_READABLE_CONTRAST
                        then if contrast < MIN_ACCEPTABLE_CONTRAST
                             then Inr (fixed_colors
                                         \<lparr> scalars := (scalars fixed_colors)
                                              (''background'' \<mapsto> fallback_background,
                                               ''foreground'' \<mapsto> fallback_foreground) \<rparr>,
                                       issues_found @ [Low_contrast contrast, Applied_fallback])
                             else Inr (fixed_colors, issues_found @ [Low_contrast contrast])
                        else Inr (fixed_colors, issues_found)))))"

text \<open>\<^verbatim>\<open>validate_and_fix_colors(colors)\<close>, lines 199 to 291.\<close>

definition validate_and_fix_colors ::
  "color_dict \<Rightarrow> py_error + (color_dict \<times> issue list)" where
  "validate_and_fix_colors colors =
     (case resolve_slots colors of
        Inl e \<Rightarrow> Inl e
      | Inr st \<Rightarrow> check_contrast st)"

section \<open>\<^verbatim>\<open>generate_vscode_theme\<close>\<close>

text \<open>
  A Python dictionary display \<^verbatim>\<open>{k1: v1, k2: v2, ...}\<close> inserts its entries from left to
  right: a key that occurs again keeps its place and takes the later value.
\<close>

definition dict_display :: "(string \<times> string) list \<Rightarrow> (string \<times> string) list" where
  "dict_display entries = foldl (\<lambda>d (k, v). AList.update k v d) [] entries"

text \<open>
  The value of \<^verbatim>\<open>"workbench.colorCustomizations"\<close>, lines 365 to 755, in the groups that
  the comments of the source mark. The arguments are the local variables \<^verbatim>\<open>bg\<close>,
  \<^verbatim>\<open>fg\<close>, \<^verbatim>\<open>cursor\<close>, \<^verbatim>\<open>normal\<close>, \<^verbatim>\<open>bright\<close> and \<^verbatim>\<open>ui_colors\<close>.
\<close>

text \<open>The entries under the comment \<^verbatim>\<open>EDITOR\<close>.\<close>

definition entries_editor ::
  "string \<Rightarrow> string \<Rightarrow> string \<Rightarrow> (string \<rightharpoonup> string) \<Rightarrow> (string \<rightharpoonup> string)
     \<Rightarrow> ui_colors \<Rightarrow> (string \<times> string) list" where
  "entries_editor bg fg cursor normal bright ui =
     [(''editor.background'', bg),
      (''editor.foreground'', fg),
      (''editor.emptyBackground'', bg),
      (''editor.lineHighlightBackground'', list_bg ui),
      (''editor.selectionBackground'', tab_bg ui),
      (''editor.findMatchBackground'', get_or normal ''green'' ''#50fa7b''),
      (''editor.findMatchHighlightBackground'', hover_bg ui),
      (''editorCursor.foreground'', cursor),
      (''editorWhitespace.foreground'', get_or normal ''black'' ''#6272a4''),
      (''editorIndentGuide.background'', border_color ui),
      (''editorIndentGuide.activeBackground'', get_or normal ''green'' ''#50fa7b''),
      (''editor.lineHighlightBorder'', border_color ui),
      (''editor.rangeHighlightBackground'', hover_bg ui),
      (''editor.symbolHighlightBackground'', hover_bg ui),
      (''editor.wordHighlightBackground'', hover_bg ui),
      (''editor.wordHighlightStrongBackground'', tab_bg ui),
      (''editorBracketMatch.background'', border_color ui),
      (''editorBracketMatch.border'', get_or normal ''blue'' ''#8be9fd''),
      (''editorCodeLens.foreground'', get_or normal ''black'' ''#6272a4''),
      (''editorError.foreground'', get_or normal ''red'' ''#ff5555''),
      (''editorWarning.foreground'', get_or normal ''yellow'' ''#f1fa8c''),
      (''editorInfo.foreground'', get_or normal ''blue'' ''#8be9fd''),
      (''editorHint.foreground'', get_or normal ''green'' ''#50fa7b''),
      (''editorGutter.background'', bg),
      (''editorGutter.modifiedBackground'', get_or normal ''yellow'' ''#f1fa8c''),
      (''editorGutter.addedBackground'', get_or normal ''green'' ''#50fa7b''),
      (''editorGutter.deletedBackground'', get_or normal ''red'' ''#ff5555''),
      (''editorUnnecessaryCode.opacity'', ''0.4''),
      (''editorSuggestWidget.background'', input_bg ui),
      (''editorSuggestWidget.border'', border_color ui),
      (''editorSuggestWidget.selectedBackground'', list_bg ui),
      (''editorSuggestWidget.highlightForeground'', get_or normal ''blue'' ''#8be9fd''),
      (''editorHoverWidget.background'', input_bg ui),
      (''editorHoverWidget.border'', border_color ui)]"

text \<open>The entries under the comment \<^verbatim>\<open>EDITOR GROUP\<close>.\<close>

definition entries_editor_group ::
  "string \<Rightarrow> string \<Rightarrow> string \<Rightarrow> (string \<rightharpoonup> string) \<Rightarrow> (string \<rightharpoonup> string)
     \<Rightarrow> ui_colors \<Rightarrow> (string \<times> string) list" where
  "entries_editor_group bg fg cursor normal bright ui =
     [(''editorGroup.background'', bg),
      (''editorGroup.border'', border_color ui),
      (''editorGroupHeader.background'', side_bg ui),
      (''editorGroupHeader.tabsBackground'', side_bg ui),
      (''editorGroupHeader.tabsBorder'', border_color ui),
      (''editorGroupHeader.noTabsBackground'', side_bg ui)]"

text \<open>The entries under the comment \<^verbatim>\<open>BREADCRUMBS\<close>.\<close>

definition entries_breadcrumbs ::
  "string \<Rightarrow> string \<Rightarrow> string \<Rightarrow> (string \<rightharpoonup> string) \<Rightarrow> (string \<rightharpoonup> string)
     \<Rightarrow> ui_colors \<Rightarrow> (string \<times> string) list" where
  "entries_breadcrumbs bg fg cursor normal bright ui =
     [(''breadcrumb.background'', bg),
      (''breadcrumb.foreground'', fg),
      (''breadcrumb.focusForeground'', get_or normal ''blue'' ''#8be9fd''),
      (''breadcrumb.activeSelectionForeground'', fg),
      (''breadcrumbPicker.background'', input_bg ui),
      (''breadcrumbPicker.foreground'', fg)]"

text \<open>The entries under the comment \<^verbatim>\<open>SIDEBAR\<close>.\<close>

definition entries_sidebar ::
  "string \<Rightarrow> string \<Rightarrow> string \<Rightarrow> (string \<rightharpoonup> string) \<Rightarrow> (string \<rightharpoonup> string)
     \<Rightarrow> ui_colors \<Rightarrow> (string \<times> string) list" where
  "entries_sidebar bg fg cursor normal bright ui =
     [(''sideBar.background'', side_bg ui),
      (''sideBar.foreground'', fg),
      (''sideBarTitle.foreground'', fg),
      (''sideBarSectionHeader.background'', border_color ui),
      (''sideBarSectionHeader.foreground'', fg)]"

text \<open>The entries under the comment \<^verbatim>\<open>ACTIVITY BAR\<close>.\<close>

definition entries_activity_bar ::
  "string \<Rightarrow> string \<Rightarrow> string \<Rightarrow> (string \<rightharpoonup> string) \<Rightarrow> (string \<rightharpoonup> string)
     \<Rightarrow> ui_colors \<Rightarrow> (string \<times> string) list" where
  "entries_activity_bar bg fg cursor normal bright ui =
     [(''activityBar.background'', side_bg ui),
      (''activityBar.foreground'', fg),
      (''activityBar.activeBorder'', get_or normal ''blue'' ''#8be9fd''),
      (''activityBar.activeBackground'', hover_bg ui),
      (''activityBar.inactiveForeground'', get_or normal ''black'' ''#6272a4''),
      (''activityBarBadge.background'', get_or normal ''red'' ''#ff5555''),
      (''activityBarBadge.foreground'', bg)]"

text \<open>The entries under the comment \<^verbatim>\<open>STATUS BAR\<close>.\<close>

definition entries_status_bar ::
  "string \<Rightarrow> string \<Rightarrow> string \<Rightarrow> (string \<rightharpoonup> string) \<Rightarrow> (string \<rightharpoonup> string)
     \<Rightarrow> ui_colors \<Rightarrow> (string \<times> string) list" where
  "entries_status_bar bg fg cursor normal bright ui =
     [(''statusBar.background'', side_bg ui),
      (''statusBar.foreground'', fg),
      (''statusBar.debuggingBackground'', get_or normal ''red'' ''#ff5555''),
      (''statusBar.debuggingForeground'', fg),
      (''statusBar.noFolderBackground'', side_bg ui),
      (''statusBar.noFolderForeground'', fg),
      (''statusBarItem.prominentBackground'', tab_bg ui),
      (''statusBarItem.prominentForeground'', fg),
      (''statusBarItem.hoverBackground'', hover_bg ui),
      (''statusBarItem.errorBackground'', get_or normal ''red'' ''#ff5555''),
      (''statusBarItem.errorForeground'', fg),
      (''statusBarItem.warningBackground'', get_or normal ''yellow'' ''#f1fa8c''),
      (''statusBarItem.warningForeground'', bg)]"

text \<open>The entries under the comment \<^verbatim>\<open>TITLE BAR\<close>.\<close>

definition entries_title_bar ::
  "string \<Rightarrow> string \<Rightarrow> string \<Rightarrow> (string \<rightharpoonup> string) \<Rightarrow> (string \<rightharpoonup> string)
     \<Rightarrow> ui_colors \<Rightarrow> (string \<times> string) list" where
  "entries_title_bar bg fg cursor normal bright ui =
     [(''titleBar.activeBackground'', side_bg ui),
      (''titleBar.activeForeground'', fg),
      (''titleBar.inactiveBackground'', panel_bg ui),
      (''titleBar.inactiveForeground'', get_or normal ''black'' ''#6272a4'')]"

text \<open>The entries under the comment \<^verbatim>\<open>TABS\<close>.\<close>

definition entries_tabs ::
  "string \<Rightarrow> string \<Rightarrow> string \<Rightarrow> (string \<rightharpoonup> string) \<Rightarrow> (string \<rightharpoonup> string)
     \<Rightarrow> ui_colors \<Rightarrow> (string \<times> string) list" where
  "entries_tabs bg fg cursor normal bright ui =
     [(''tab.activeBackground'', tab_bg ui),
      (''tab.activeForeground'', fg),
      (''tab.inactiveBackground'', side_bg ui),
      (''tab.inactiveForeground'', get_or normal ''black'' ''#6272a4''),
      (''tab.border'', border_color ui),
      (''tab.activeBorder'', get_or normal ''blue'' ''#8be9fd''),
      (''tab.hoverBackground'', hover_bg ui),
      (''tab.hoverForeground'', fg),
      (''tab.unfocusedActiveBackground'', tab_bg ui),
      (''tab.unfocusedActiveForeground'', get_or normal ''black'' ''#6272a4''),
      (''tab.unfocusedInactiveBackground'', side_bg ui),
      (''tab.unfocusedInactiveForeground'', get_or normal ''black'' ''#6272a4'')]"

text \<open>The entries under the comment \<^verbatim>\<open>PANEL\<close>.\<close>

definition entries_panel ::
  "string \<Rightarrow> string \<Rightarrow> string \<Rightarrow> (string \<rightharpoonup> string) \<Rightarrow> (string \<rightharpoonup> string)
     \<Rightarrow> ui_colors \<Rightarrow> (string \<times> string) list" where
  "entries_panel bg fg cursor normal bright ui =
     [(''panel.background'', panel_bg ui),
      (''panel.foreground'', fg),
      (''panel.border'', border_color ui),
      (''panelTitle.activeForeground'', fg),
      (''panelTitle.inactiveForeground'', get_or normal ''black'' ''#6272a4''),
      (''panelTitle.activeBorder'', get_or normal ''blue'' ''#8be9fd'')]"

text \<open>The entries under the comment \<^verbatim>\<open>TERMINAL\<close>.\<close>

definition entries_terminal ::
  "string \<Rightarrow> string \<Rightarrow> string \<Rightarrow> (string \<rightharpoonup> string) \<Rightarrow> (string \<rightharpoonup> string)
     \<Rightarrow> ui_colors \<Rightarrow> (string \<times> string) list" where
  "entries_terminal bg fg cursor normal bright ui =
     [(''terminal.background'', bg),
      (''terminal.foreground'', fg),
      (''terminal.ansiBlack'', get_or normal ''black'' ''#000000''),
      (''terminal.ansiRed'', get_or normal ''red'' ''#ff5555''),
      (''terminal.ansiGreen'', get_or normal ''green'' ''#50fa7b''),
      (''terminal.ansiYellow'', get_or normal ''yellow'' ''#f1fa8c''),
      (''terminal.ansiBlue'', get_or normal ''blue'' ''#bd93f9''),
      (''terminal.ansiMagenta'', get_or normal ''magenta'' ''#ff79c6''),
      (''terminal.ansiCyan'', get_or normal ''cyan'' ''#8be9fd''),
      (''terminal.ansiWhite'', get_or normal ''white'' ''#f8f8f2''),
      (''terminal.ansiBrightBlack'', get_or bright ''black'' ''#6272a4''),
      (''terminal.ansiBrightRed'', get_or bright ''red'' ''#ff6e6e''),
      (''terminal.ansiBrightGreen'', get_or bright ''green'' ''#69ff94''),
      (''terminal.ansiBrightYellow'', get_or bright ''yellow'' ''#ffffa5''),
      (''terminal.ansiBrightBlue'', get_or bright ''blue'' ''#d6acff''),
      (''terminal.ansiBrightMagenta'', get_or bright ''magenta'' ''#ff92df''),
      (''terminal.ansiBrightCyan'', get_or bright ''cyan'' ''#a4ffff''),
      (''terminal.ansiBrightWhite'', get_or bright ''white'' ''#ffffff''),
      (''terminal.border'', border_color ui),
      (''terminalCursor.background'', cursor),
      (''terminalCursor.foreground'', bg)]"

text \<open>The entries under the comment \<^verbatim>\<open>INPUT\<close>.\<close>

definition entries_input ::
  "string \<Rightarrow> string \<Rightarrow> string \<Rightarrow> (string \<rightharpoonup> string) \<Rightarrow> (string \<rightharpoonup> string)
     \<Rightarrow> ui_colors \<Rightarrow> (string \<times> string) list" where
  "entries_input bg fg cursor normal bright ui =
     [(''input.background'', input_bg ui),
      (''input.foreground'', fg),
      (''input.border'', border_color ui),
      (''input.placeholderForeground'', get_or normal ''black'' ''#6272a4''),
      (''inputOption.activeBorder'', get_or normal ''blue'' ''#8be9fd''),
      (''inputValidation.infoBackground'', get_or normal ''blue'' ''#8be9fd''),
      (''inputValidation.infoBorder'', get_or normal ''blue'' ''#8be9fd''),
      (''inputValidation.warningBackground'', get_or normal ''yellow'' ''#f1fa8c''),
      (''inputValidation.warningBorder'', get_or normal ''yellow'' ''#f1fa8c''),
      (''inputValidation.errorBackground'', get_or normal ''red'' ''#ff5555''),
      (''inputValidation.errorBorder'', get_or normal ''red'' ''#ff5555'')]"

text \<open>The entries under the comment \<^verbatim>\<open>DROPDOWN\<close>.\<close>

definition entries_dropdown ::
  "string \<Rightarrow> string \<Rightarrow> string \<Rightarrow> (string \<rightharpoonup> string) \<Rightarrow> (string \<rightharpoonup> string)
     \<Rightarrow> ui_colors \<Rightarrow> (string \<times> string) list" where
  "entries_dropdown bg fg cursor normal bright ui =
     [(''dropdown.background'', input_bg ui),
      (''dropdown.foreground'', fg),
      (''dropdown.border'', border_color ui),
      (''dropdown.listBackground'', input_bg ui)]"

text \<open>The entries under the comment \<^verbatim>\<open>LISTS\<close>.\<close>

definition entries_lists ::
  "string \<Rightarrow> string \<Rightarrow> string \<Rightarrow> (string \<rightharpoonup> string) \<Rightarrow> (string \<rightharpoonup> string)
     \<Rightarrow> ui_colors \<Rightarrow> (string \<times> string) list" where
  "entries_lists bg fg cursor normal bright ui =
     [(''list.activeSelectionBackground'', list_bg ui),
      (''list.activeSelectionForeground'', fg),
      (''list.hoverBackground'', hover_bg ui),
      (''list.hoverForeground'', fg),
      (''list.focusBackground'', list_bg ui),
      (''list.focusForeground'', fg),
      (''list.inactiveSelectionBackground'', list_bg ui),
      (''list.inactiveSelectionForeground'', fg),
      (''list.inactiveFocusBackground'', list_bg ui),
      (''list.inactiveFocusForeground'', fg),
      (''list.warningForeground'', get_or normal ''yellow'' ''#f1fa8c''),
      (''list.errorForeground'', get_or normal ''red'' ''#ff5555''),
      (''list.infoForeground'', get_or normal ''blue'' ''#8be9fd''),
      (''list.highlightForeground'', get_or normal ''blue'' ''#8be9fd''),
      (''list.deemphasizedForeground'', get_or normal ''black'' ''#6272a4'')]"

text \<open>The entries under the comment \<^verbatim>\<open>AI COMPONENTS\<close>.\<close>

definition entries_ai_components ::
  "string \<Rightarrow> string \<Rightarrow> string \<Rightarrow> (string \<rightharpoonup> string) \<Rightarrow> (string \<rightharpoonup> string)
     \<Rightarrow> ui_colors \<Rightarrow> (string \<times> string) list" where
  "entries_ai_components bg fg cursor normal bright ui =
     [(''ai-prompt-bar.background'', input_bg ui),
      (''ai-prompt-bar.foreground'', fg),
      (''ai-prompt-bar.border'', get_or normal ''blue'' ''#8be9fd''),
      (''ai-prompt-bar.button.background'', list_bg ui),
      (''ai-prompt-bar.button.foreground'', fg),
      (''ai-prompt-bar.button.hoverBackground'', hover_bg ui),
      (''ai-prompt-bar.button.keep.background'', get_or normal ''green'' ''#50fa7b''),
      (''ai-prompt-bar.button.keep.foreground'', bg)]"

text \<open>The entries under the comment \<^verbatim>\<open>CHAT INTERFACE\<close>.\<close>

definition entries_chat_interface ::
  "string \<Rightarrow> string \<Rightarrow> string \<Rightarrow> (string \<rightharpoonup> string) \<Rightarrow> (string \<rightharpoonup> string)
     \<Rightarrow> ui_colors \<Rightarrow> (string \<times> string) list" where
  "entries_chat_interface bg fg cursor normal bright ui =
     [(''chat.background'', side_bg ui),
      (''chat.foreground'', fg),
      (''chat.border'', get_or normal ''blue'' ''#8be9fd''),
      (''chat.requestBackground'', input_bg ui),
      (''chat.responseBackground'', list_bg ui)]"

text \<open>The entries under the comment \<^verbatim>\<open>BUTTONS\<close>.\<close>

definition entries_buttons ::
  "string \<Rightarrow> string \<Rightarrow> string \<Rightarrow> (string \<rightharpoonup> string) \<Rightarrow> (string \<rightharpoonup> string)
     \<Rightarrow> ui_colors \<Rightarrow> (string \<times> string) list" where
  "entries_buttons bg fg cursor normal bright ui =
     [(''button.background'', input_bg ui),
      (''button.foreground'', fg),
      (''button.hoverBackground'', hover_bg ui),
      (''button.border'', border_color ui),
      (''button.secondaryBackground'', panel_bg ui),
      (''button.secondaryForeground'', fg),
      (''button.secondaryHoverBackground'', hover_bg ui),
      (''button.prominentBackground'', get_or normal ''blue'' ''#8be9fd''),
      (''button.prominentForeground'', bg),
      (''button.prominentHoverBackground'', get_or bright ''blue'' ''#d6acff'')]"

text \<open>The entries under the comment \<^verbatim>\<open>SCROLLBARS\<close>.\<close>

definition entries_scrollbars ::
  "string \<Rightarrow> string \<Rightarrow> string \<Rightarrow> (string \<rightharpoonup> string) \<Rightarrow> (string \<rightharpoonup> string)
     \<Rightarrow> ui_colors \<Rightarrow> (string \<times> string) list" where
  "entries_scrollbars bg fg cursor normal bright ui =
     [(''scrollbarSlider.background'', border_color ui),
      (''scrollbarSlider.hoverBackground'', get_or normal ''black'' ''#6272a4''),
      (''scrollbarSlider.activeBackground'', get_or normal ''blue'' ''#8be9fd'')]"

text \<open>The entries under the comment \<^verbatim>\<open>FOCUS AND BORDERS\<close>.\<close>

definition entries_focus_and_borders ::
  "string \<Rightarrow> string \<Rightarrow> string \<Rightarrow> (string \<rightharpoonup> string) \<Rightarrow> (string \<rightharpoonup> string)
     \<Rightarrow> ui_colors \<Rightarrow> (string \<times> string) list" where
  "entries_focus_and_borders bg fg cursor normal bright ui =
     [(''focusBorder'', get_or normal ''blue'' ''#8be9fd''),
      (''contrastBorder'', border_color ui),
      (''contrastActiveBorder'', get_or normal ''blue'' ''#8be9fd'')]"

text \<open>The entries under the comment \<^verbatim>\<open>ADDITIONAL UI ELEMENTS\<close>.\<close>

definition entries_additional_ui_elements ::
  "string \<Rightarrow> string \<Rightarrow> string \<Rightarrow> (string \<rightharpoonup> string) \<Rightarrow> (string \<rightharpoonup> string)
     \<Rightarrow> ui_colors \<Rightarrow> (string \<times> string) list" where
  "entries_additional_ui_elements bg fg cursor normal bright ui =
     [(''foreground'', fg),
      (''disabledForeground'', get_or normal ''black'' ''#6272a4''),
      (''errorForeground'', get_or normal ''red'' ''#ff5555''),
      (''descriptionForeground'', get_or normal ''black'' ''#6272a4'')]"

text \<open>The entries under the comment \<^verbatim>\<open>WIDGETS\<close>.\<close>

definition entries_widgets ::
  "string \<Rightarrow> string \<Rightarrow> string \<Rightarrow> (string \<rightharpoonup> string) \<Rightarrow> (string \<rightharpoonup> string)
     \<Rightarrow> ui_colors \<Rightarrow> (string \<times> string) list" where
  "entries_widgets bg fg cursor normal bright ui =
     [(''widget.background'', input_bg ui),
      (''widget.foreground'', fg),
      (''widget.border'', border_color ui),
      (''widget.shadow'', ''#00000040'')]"

text \<open>The entries under the comment \<^verbatim>\<open>EDITOR WIDGETS\<close>.\<close>

definition entries_editor_widgets ::
  "string \<Rightarrow> string \<Rightarrow> string \<Rightarrow> (string \<rightharpoonup> string) \<Rightarrow> (string \<rightharpoonup> string)
     \<Rightarrow> ui_colors \<Rightarrow> (string \<times> string) list" where
  "entries_editor_widgets bg fg cursor normal bright ui =
     [(''editorWidget.background'', input_bg ui),
      (''editorWidget.foreground'', fg),
      (''editorWidget.border'', border_color ui),
      (''editorWidget.resizeBorder'', get_or normal ''blue'' ''#8be9fd'')]"

text \<open>The entries under the comment \<^verbatim>\<open>INPUT OPTIONS\<close>.\<close>

definition entries_input_options ::
  "string \<Rightarrow> string \<Rightarrow> string \<Rightarrow> (string \<rightharpoonup> string) \<Rightarrow> (string \<rightharpoonup> string)
     \<Rightarrow> ui_colors \<Rightarrow> (string \<times> string) list" where
  "entries_input_options bg fg cursor normal bright ui =
     [(''inputOption.activeBackground'', get_or normal ''blue'' ''#8be9fd''),
      (''inputOption.activeForeground'', bg),
      (''inputOption.activeBorder'', get_or normal ''blue'' ''#8be9fd''),
      (''inputOption.hoverBackground'', hover_bg ui)]"

text \<open>The entries under the comment \<^verbatim>\<open>SELECTION\<close>.\<close>

definition entries_selection ::
  "string \<Rightarrow> string \<Rightarrow> string \<Rightarrow> (string \<rightharpoonup> string) \<Rightarrow> (string \<rightharpoonup> string)
     \<Rightarrow> ui_colors \<Rightarrow> (string \<times> string) list" where
  "entries_selection bg fg cursor normal bright ui =
     [(''selection.background'', get_or normal ''blue'' ''#8be9fd'')]"

text \<open>The entries under the comment \<^verbatim>\<open>EDITOR LINE NUMBERS\<close>.\<close>

definition entries_editor_line_numbers ::
  "string \<Rightarrow> string \<Rightarrow> string \<Rightarrow> (string \<rightharpoonup> string) \<Rightarrow> (string \<rightharpoonup> string)
     \<Rightarrow> ui_colors \<Rightarrow> (string \<times> string) list" where
  "entries_editor_line_numbers bg fg cursor normal bright ui =
     [(''editorLineNumber.foreground'', get_or normal ''black'' ''#6272a4''),
      (''editorLineNumber.activeForeground'', fg),
      (''editorLineNumber.background'', bg)]"

text \<open>The entries under the comment \<^verbatim>\<open>ACTION ITEMS AND LABELS\<close>.\<close>

definition entries_action_items_and_labels ::
  "string \<Rightarrow> string \<Rightarrow> string \<Rightarrow> (string \<rightharpoonup> string) \<Rightarrow> (string \<rightharpoonup> string)
     \<Rightarrow> ui_colors \<Rightarrow> (string \<times> string) list" where
  "entries_action_items_and_labels bg fg cursor normal bright ui =
     [(''actionItem.background'', input_bg ui),
      (''actionItem.foreground'', fg),
      (''actionItem.border'', border_color ui),
      (''actionItem.hoverBackground'', hover_bg ui),
      (''actionItem.hoverForeground'', fg),
      (''actionItem.activeBackground'', list_bg ui),
      (''actionItem.activeForeground'', fg),
      (''actionItem.disabledForeground'', get_or normal ''black'' ''#6272a4''),
      (''actionLabel.background'', input_bg ui),
      (''actionLabel.foreground'', fg),
      (''actionLabel.border'', border_color ui),
      (''actionLabel.hoverBackground'', hover_bg ui),
      (''actionLabel.hoverForeground'', fg),
      (''actionLabel.activeBackground'', list_bg ui),
      (''actionLabel.activeForeground'', fg),
      (''actionLabel.disabledForeground'', get_or normal ''black'' ''#6272a4''),
      (''menuEntry.background'', input_bg ui),
      (''menuEntry.foreground'', fg),
      (''menuEntry.border'', border_color ui),
      (''menuEntry.hoverBackground'', hover_bg ui),
      (''menuEntry.hoverForeground'', fg),
      (''menuEntry.activeBackground'', list_bg ui),
      (''menuEntry.activeForeground'', fg),
      (''menuEntry.disabledForeground'', get_or normal ''black'' ''#6272a4''),
      (''outlineElement.background'', side_bg ui),
      (''outlineElement.foreground'', fg),
      (''outlineElement.border'', border_color ui),
      (''outlineElement.hoverBackground'', hover_bg ui),
      (''outlineElement.hoverForeground'', fg),
      (''outlineElement.activeBackground'', list_bg ui),
      (''outlineElement.activeForeground'', fg),
      (''outlineElement.icon'', get_or normal ''blue'' ''#8be9fd''),
      (''outlineElement.activeIcon'', get_or normal ''cyan'' ''#8be9fd''),
      (''outlineElement.inactiveIcon'', get_or normal ''black'' ''#6272a4'')]"

text \<open>The entries under the comment \<^verbatim>\<open>CODICON ELEMENTS\<close>.\<close>

definition entries_codicon_elements ::
  "string \<Rightarrow> string \<Rightarrow> string \<Rightarrow> (string \<rightharpoonup> string) \<Rightarrow> (string \<rightharpoonup> string)
     \<Rightarrow> ui_colors \<Rightarrow> (string \<times> string) list" where
  "entries_codicon_elements bg fg cursor normal bright ui =
     [(''codicon.foreground'', get_or normal ''blue'' ''#8be9fd''),
      (''codicon.activeForeground'', get_or normal ''cyan'' ''#8be9fd''),
      (''codicon.inactiveForeground'', get_or normal ''black'' ''#6272a4''),
      (''codicon.hoverForeground'', get_or normal ''cyan'' ''#8be9fd''),
      (''codicon.disabledForeground'', get_or normal ''black'' ''#6272a4''),
      (''codicon.symbolClass'', get_or normal ''cyan'' ''#8be9fd''),
      (''codicon.symbolMethod'', get_or normal ''green'' ''#50fa7b''),
      (''codicon.symbolFunction'', get_or normal ''green'' ''#50fa7b''),
      (''codicon.symbolVariable'', get_or normal ''blue'' ''#8be9fd''),
      (''codicon.symbolInterface'', get_or normal ''cyan'' ''#8be9fd''),
      (''codicon.symbolModule'', get_or normal ''cyan'' ''#8be9fd''),
      (''codicon.symbolProperty'', get_or normal ''blue'' ''#8be9fd''),
      (''codicon.symbolEnum'', get_or normal ''yellow'' ''#f1fa8c''),
      (''codicon.symbolKeyword'', get_or normal ''magenta'' ''#ff79c6''),
      (''codicon.symbolSnippet'', get_or normal ''green'' ''#50fa7b''),
      (''codicon.symbolColor'', get_or normal ''magenta'' ''#ff79c6''),
      (''codicon.symbolFile'', get_or normal ''cyan'' ''#8be9fd''),
      (''codicon.symbolReference'', get_or normal ''blue'' ''#8be9fd''),
      (''codicon.symbolFolder'', get_or normal ''blue'' ''#8be9fd''),
      (''codicon.symbolTypeParameter'', get_or normal ''cyan'' ''#8be9fd''),
      (''codicon.symbolUnit'', get_or normal ''yellow'' ''#f1fa8c''),
      (''codicon.symbolValue'', get_or normal ''yellow'' ''#f1fa8c''),
      (''codicon.symbolEnum'', get_or normal ''yellow'' ''#f1fa8c''),
      (''codicon.symbolStruct'', get_or normal ''cyan'' ''#8be9fd''),
      (''codicon.symbolEvent'', get_or normal ''red'' ''#ff5555''),
      (''codicon.symbolOperator'', get_or normal ''red'' ''#ff5555''),
      (''codicon.symbolTypeParameter'', get_or normal ''cyan'' ''#8be9fd'')]"

text \<open>The entries under the comment \<^verbatim>\<open>ICON COLORS\<close>.\<close>

definition entries_icon_colors ::
  "string \<Rightarrow> string \<Rightarrow> string \<Rightarrow> (string \<rightharpoonup> string) \<Rightarrow> (string \<rightharpoonup> string)
     \<Rightarrow> ui_colors \<Rightarrow> (string \<times> string) list" where
  "entries_icon_colors bg fg cursor normal bright ui =
     [(''icon.foreground'', get_or normal ''blue'' ''#8be9fd''),
      (''icon.activeForeground'', get_or normal ''cyan'' ''#8be9fd''),
      (''icon.inactiveForeground'', get_or normal ''black'' ''#6272a4''),
      (''icon.hoverForeground'', get_or normal ''cyan'' ''#8be9fd''),
      (''icon.disabledForeground'', get_or normal ''black'' ''#6272a4''),
      (''icon.warningForeground'', get_or normal ''yellow'' ''#f1fa8c''),
      (''icon.errorForeground'', get_or normal ''red'' ''#ff5555''),
      (''icon.successForeground'', get_or normal ''green'' ''#50fa7b''),
      (''icon.infoForeground'', get_or normal ''blue'' ''#8be9fd'')]"

text \<open>The entries under the comment \<^verbatim>\<open>SYMBOL ICON THEMING\<close>.\<close>

definition entries_symbol_icon_theming ::
  "string \<Rightarrow> string \<Rightarrow> string \<Rightarrow> (string \<rightharpoonup> string) \<Rightarrow> (string \<rightharpoonup> string)
     \<Rightarrow> ui_colors \<Rightarrow> (string \<times> string) list" where
  "entries_symbol_icon_theming bg fg cursor normal bright ui =
     [(''symbolIcon.arrayForeground'', get_or normal ''yellow'' ''#f1fa8c''),
      (''symbolIcon.booleanForeground'', get_or normal ''blue'' ''#8be9fd''),
      (''symbolIcon.classForeground'', get_or normal ''cyan'' ''#8be9fd''),
      (''symbolIcon.colorForeground'', get_or normal ''magenta'' ''#ff79c6''),
      (''symbolIcon.constantForeground'', get_or normal ''yellow'' ''#f1fa8c''),
      (''symbolIcon.constructorForeground'', get_or normal ''green'' ''#50fa7b''),
      (''symbolIcon.enumeratorForeground'', get_or normal ''yellow'' ''#f1fa8c''),
      (''symbolIcon.enumeratorMemberForeground'', get_or normal ''blue'' ''#8be9fd''),
      (''symbolIcon.eventForeground'', get_or normal ''red'' ''#ff5555''),
      (''symbolIcon.fieldForeground'', get_or normal ''blue'' ''#8be9fd''),
      (''symbolIcon.fileForeground'', get_or normal ''cyan'' ''#8be9fd''),
      (''symbolIcon.folderForeground'', get_or normal ''blue'' ''#8be9fd''),
      (''symbolIcon.functionForeground'', get_or normal ''green'' ''#50fa7b''),
      (''symbolIcon.interfaceForeground'', get_or normal ''cyan'' ''#8be9fd''),
      (''symbolIcon.keyForeground'', get_or normal ''blue'' ''#8be9fd''),
      (''symbolIcon.keywordForeground'', get_or normal ''magenta'' ''#ff79c6''),
      (''symbolIcon.methodForeground'', get_or normal ''green'' ''#50fa7b''),
      (''symbolIcon.moduleForeground'', get_or normal ''cyan'' ''#8be9fd''),
      (''symbolIcon.namespaceForeground'', get_or normal ''cyan'' ''#8be9fd''),
      (''symbolIcon.nullForeground'', get_or normal ''red'' ''#ff5555''),
      (''symbolIcon.numberForeground'', get_or normal ''yellow'' ''#f1fa8c''),
      (''symbolIcon.objectForeground'', get_or normal ''blue'' ''#8be9fd''),
      (''symbolIcon.operatorForeground'', get_or normal ''red'' ''#ff5555''),
      (''symbolIcon.packageForeground'', get_or normal ''cyan'' ''#8be9fd''),
      (''symbolIcon.propertyForeground'', get_or normal ''blue'' ''#8be9fd''),
      (''symbolIcon.referenceForeground'', get_or normal ''blue'' ''#8be9fd''),
      (''symbolIcon.snippetForeground'', get_or normal ''green'' ''#50fa7b''),
      (''symbolIcon.stringForeground'', get_or normal ''green'' ''#50fa7b''),
      (''symbolIcon.structForeground'', get_or normal ''cyan'' ''#8be9fd''),
      (''symbolIcon.textForeground'', fg),
      (''symbolIcon.typeParameterForeground'', get_or normal ''cyan'' ''#8be9fd''),
      (''symbolIcon.unitForeground'', get_or normal ''yellow'' ''#f1fa8c''),
      (''symbolIcon.variableForeground'', get_or normal ''blue'' ''#8be9fd'')]"

text \<open>The entries under the comment \<^verbatim>\<open>DEBUG ICONS\<close>.\<close>

definition entries_debug_icons ::
  "string \<Rightarrow> string \<Rightarrow> string \<Rightarrow> (string \<rightharpoonup> string) \<Rightarrow> (string \<rightharpoonup> string)
     \<Rightarrow> ui_colors \<Rightarrow> (string \<times> string) list" where
  "entries_debug_icons bg fg cursor normal bright ui =
     [(''debugIcon.startForeground'', get_or normal ''green'' ''#50fa7b''),
      (''debugIcon.pauseForeground'', get_or normal ''yellow'' ''#f1fa8c''),
      (''debugIcon.stopForeground'', get_or normal ''red'' ''#ff5555''),
      (''debugIcon.disconnectForeground'', get_or normal ''red'' ''#ff5555''),
      (''debugIcon.restartForeground'', get_or normal ''green'' ''#50fa7b''),
      (''debugIcon.stepOverForeground'', get_or normal ''blue'' ''#8be9fd''),
      (''debugIcon.stepIntoForeground'', get_or normal ''blue'' ''#8be9fd''),
      (''debugIcon.stepOutForeground'', get_or normal ''blue'' ''#8be9fd''),
      (''debugIcon.continueForeground'', get_or normal ''green'' ''#50fa7b''),
      (''debugIcon.stepBackForeground'', get_or normal ''blue'' ''#8be9fd'')]"

text \<open>The entries under the comment \<^verbatim>\<open>PROBLEM ICONS\<close>.\<close>

definition entries_problem_icons ::
  "string \<Rightarrow> string \<Rightarrow> string \<Rightarrow> (string \<rightharpoonup> string) \<Rightarrow> (string \<rightharpoonup> string)
     \<Rightarrow> ui_colors \<Rightarrow> (string \<times> string) list" where
  "entries_problem_icons bg fg cursor normal bright ui =
     [(''problemsErrorIcon.foreground'', get_or normal ''red'' ''#ff5555''),
      (''problemsWarningIcon.foreground'', get_or normal ''yellow'' ''#f1fa8c''),
      (''problemsInfoIcon.foreground'', get_or normal ''blue'' ''#8be9fd'')]"

text \<open>The entries under the comment \<^verbatim>\<open>TREE ICONS\<close>.\<close>

definition entries_tree_icons ::
  "string \<Rightarrow> string \<Rightarrow> string \<Rightarrow> (string \<rightharpoonup> string) \<Rightarrow> (string \<rightharpoonup> string)
     \<Rightarrow> ui_colors \<Rightarrow> (string \<times> string) list" where
  "entries_tree_icons bg fg cursor normal bright ui =
     [(''tree.expandIcon'', get_or normal ''blue'' ''#8be9fd''),
      (''tree.collapseIcon'', get_or normal ''blue'' ''#8be9fd'')]"

text \<open>The entries under the comment \<^verbatim>\<open>COMMENTS ICONS\<close>.\<close>

definition entries_comments_icons ::
  "string \<Rightarrow> string \<Rightarrow> string \<Rightarrow> (string \<rightharpoonup> string) \<Rightarrow> (string \<rightharpoonup> string)
     \<Rightarrow> ui_colors \<Rightarrow> (string \<times> string) list" where
  "entries_comments_icons bg fg cursor normal bright ui =
     [(''commentsView.resolvedIcon'', get_or normal ''green'' ''#50fa7b''),
      (''commentsView.unresolvedIcon'', get_or normal ''blue'' ''#8be9fd'')]"
text \<open>All entries of the display, in the order of the source.\<close>

definition customization_entries ::
  "string \<Rightarrow> string \<Rightarrow> string \<Rightarrow> (string \<rightharpoonup> string) \<Rightarrow> (string \<rightharpoonup> string)
     \<Rightarrow> ui_colors \<Rightarrow> (string \<times> string) list" where
  "customization_entries bg fg cursor normal bright ui =
     entries_editor bg fg cursor normal bright ui
     @ entries_editor_group bg fg cursor normal bright ui
     @ entries_breadcrumbs bg fg cursor normal bright ui
     @ entries_sidebar bg fg cursor normal bright ui
     @ entries_activity_bar bg fg cursor normal bright ui
     @ entries_status_bar bg fg cursor normal bright ui
     @ entries_title_bar bg fg cursor normal bright ui
     @ entries_tabs bg fg cursor normal bright ui
     @ entries_panel bg fg cursor normal bright ui
     @ entries_terminal bg fg cursor normal bright ui
     @ entries_input bg fg cursor normal bright ui
     @ entries_dropdown bg fg cursor normal bright ui
     @ entries_lists bg fg cursor normal bright ui
     @ entries_ai_components bg fg cursor normal bright ui
     @ entries_chat_interface bg fg cursor normal bright ui
     @ entries_buttons bg fg cursor normal bright ui
     @ entries_scrollbars bg fg cursor normal bright ui
     @ entries_focus_and_borders bg fg cursor normal bright ui
     @ entries_additional_ui_elements bg fg cursor normal bright ui
     @ entries_widgets bg fg cursor normal bright ui
     @ entries_editor_widgets bg fg cursor normal bright ui
     @ entries_input_options bg fg cursor normal bright ui
     @ entries_selection bg fg cursor normal bright ui
     @ entries_editor_line_numbers bg fg cursor normal bright ui
     @ entries_action_items_and_labels bg fg cursor normal bright ui
     @ entries_codicon_elements bg fg cursor normal bright ui
     @ entries_icon_colors bg fg cursor normal bright ui
     @ entries_symbol_icon_theming bg fg cursor normal bright ui
     @ entries_debug_icons bg fg cursor normal bright ui
     @ entries_problem_icons bg fg cursor normal bright ui
     @ entries_tree_icons bg fg cursor normal bright ui
     @ entries_comments_icons bg fg cursor normal bright ui"
text \<open>One element of \<^verbatim>\<open>"textMateRules"\<close>: the scopes and \<^verbatim>\<open>settings.foreground\<close>.\<close>

record rule =
  scope :: "string list"
  foreground :: string

text \<open>The list \<^verbatim>\<open>"textMateRules"\<close>, lines 757 to 818.\<close>

definition text_mate_rules :: "string \<Rightarrow> (string \<rightharpoonup> string) \<Rightarrow> rule list" where
  "text_mate_rules fg normal =
     [\<lparr> scope = [''comment'', ''punctuation.definition.comment'', ''comment.line'',
                  ''comment.block''],
         foreground = get_or normal ''black'' ''#6272a4'' \<rparr>,
      \<lparr> scope = [''string'', ''string.quoted'', ''string.quoted.single'',
                  ''string.quoted.double''],
         foreground = get_or normal ''green'' ''#50fa7b'' \<rparr>,
      \<lparr> scope = [''constant.numeric'', ''constant.numeric.integer'',
                  ''constant.numeric.float''],
         foreground = get_or normal ''yellow'' ''#f1fa8c'' \<rparr>,
      \<lparr> scope = [''constant.language'', ''constant.character'',
                  ''constant.character.escape''],
         foreground = get_or normal ''red'' ''#ff5555'' \<rparr>,
      \<lparr> scope = [''variable'', ''variable.other'', ''variable.parameter''],
         foreground = fg \<rparr>,
      \<lparr> scope = [''keyword'', ''storage.type'', ''storage.modifier'', ''storage.class''],
         foreground = get_or normal ''magenta'' ''#ff79c6'' \<rparr>,
      \<lparr> scope = [''entity.name.function'', ''support.function'', ''meta.function-call''],
         foreground = get_or normal ''blue'' ''#8be9fd'' \<rparr>,
      \<lparr> scope = [''entity.name.class'', ''entity.name.type'', ''support.class''],
         foreground = get_or normal ''cyan'' ''#8be9fd'' \<rparr>,
      \<lparr> scope = [''entity.name.tag'', ''support.type''],
         foreground = get_or normal ''green'' ''#50fa7b'' \<rparr>,
      \<lparr> scope = [''punctuation.definition.string'', ''punctuation.definition.parameters''],
         foreground = get_or normal ''black'' ''#6272a4'' \<rparr>]"

text \<open>
  The theme document: \<^verbatim>\<open>"workbench.colorTheme"\<close>, \<^verbatim>\<open>"workbench.colorCustomizations"\<close>
  and the rules of \<^verbatim>\<open>"editor.tokenColorCustomizations"\<close>.
\<close>

record theme =
  colorTheme :: string
  colorCustomizations :: "(string \<times> string) list"
  textMateRules :: "rule list"

text \<open>\<^verbatim>\<open>generate_vscode_theme(theme_name, colors)\<close>, lines 346 to 822.\<close>

definition generate_vscode_theme :: "string \<Rightarrow> color_dict \<Rightarrow> theme" where
  "generate_vscode_theme theme_name colors =
     (let is_light = is_light_theme (get_or (scalars colors) ''background'' ''#1e1e2e'');
          bg = get_or (scalars colors) ''background'' ''#1e1e2e'';
          fg = get_or (scalars colors) ''foreground'' ''#cdd6f4'';
          normal = section_or_empty (normal_dict colors);
          bright = section_or_empty (bright_dict colors);
          cursor = get_or (scalars colors) ''cursor'' fg;
          ui = generate_ui_colors colors is_light
      in \<lparr> colorTheme = theme_name,
            colorCustomizations =
              dict_display (customization_entries bg fg cursor normal bright ui),
            textMateRules = text_mate_rules fg normal \<rparr>)"

text \<open>
  Lines 845 to 858 and 869 of \<^verbatim>\<open>generate_theme_for_name\<close>: the raw palette is validated,
  the theme is generated from the validated palette, and the theme type is that of the
  validated background. The result is the theme, the issues and the classification
  (\<^term>\<open>True\<close> for LIGHT).
\<close>

definition generate_from_raw ::
  "string \<Rightarrow> color_dict \<Rightarrow> py_error + (theme \<times> issue list \<times> bool)" where
  "generate_from_raw theme_name raw_colors =
     (case validate_and_fix_colors raw_colors of
        Inl e \<Rightarrow> Inl e
      | Inr (colors, issues) \<Rightarrow>
          Inr (generate_vscode_theme theme_name colors, issues,
               is_light_theme (get_or (scalars colors) ''background'' ''#1e1e2e'')))"

text \<open>
  The colors of the normal-intensity slots of a palette: the values that the section
  \<^verbatim>\<open>normal\<close> has for the eight slot names, in the order of the names.
\<close>

definition normal_slot_colors :: "color_dict \<Rightarrow> string list" where
  "normal_slot_colors colors =
     List.map_filter (section_or_empty (normal_dict colors)) color_names"

text \<open>
  A canonical color: \<^verbatim>\<open>#\<close> and six lower-case hexadecimal digits.
\<close>

definition is_lower_hex :: "char \<Rightarrow> bool" where
  "is_lower_hex c \<longleftrightarrow> c \<in> set ''0123456789abcdef''"

definition is_canonical_color :: "string \<Rightarrow> bool" where
  "is_canonical_color s \<longleftrightarrow>
     length s = 7 \<and> take 1 s = ''#'' \<and> list_all is_lower_hex (drop 1 s)"

text \<open>
  The sixteen keys of the theme document that take the ANSI slots of the palette,
  lines 480 to 495.
\<close>

definition ansi_keys :: "string list" where
  "ansi_keys =
     [''terminal.ansiBlack'', ''terminal.ansiRed'', ''terminal.ansiGreen'',
      ''terminal.ansiYellow'', ''terminal.ansiBlue'', ''terminal.ansiMagenta'',
      ''terminal.ansiCyan'', ''terminal.ansiWhite'',
      ''terminal.ansiBrightBlack'', ''terminal.ansiBrightRed'', ''terminal.ansiBrightGreen'',
      ''terminal.ansiBrightYellow'', ''terminal.ansiBrightBlue'',
      ''terminal.ansiBrightMagenta'', ''terminal.ansiBrightCyan'',
      ''terminal.ansiBrightWhite'']"

text \<open>
  The raw palette that \<^verbatim>\<open>parse_alacritty_colors\<close> returns for a source with
  \<^verbatim>\<open>background = "#282a36"\<close> and \<^verbatim>\<open>foreground = "#f8f8f2"\<close> only: the two scalars, and
  the two sections present and empty (lines 321 and 334 set them always).
\<close>

definition minimal_raw :: color_dict where
  "minimal_raw =
     \<lparr> scalars = [''background'' \<mapsto> ''#282a36'', ''foreground'' \<mapsto> ''#f8f8f2''],
       normal_dict = Some Map.empty, bright_dict = Some Map.empty \<rparr>"

section \<open>Evaluation of the string primitives\<close>

lemmas string_defs =
  strip_def is_space_def is_quote_def startswith_def slice_def
  take_sign_def take_prefix_def is_int_space_def is_digit_or_underscore_def
  is_hex_digit_def hex_digit_value_def digits_value_def int16_def

lemma is_hex_digit_iff:
  "is_hex_digit c \<longleftrightarrow> c \<in> set ''0123456789abcdefABCDEF''"
  by (auto simp add: is_hex_digit_def hex_digit_value_def)

lemma hex_digit_not_other:
  assumes "is_hex_digit c"
  shows "\<not> is_space c" and "\<not> is_quote c" and "\<not> is_int_space c"
    and "c \<noteq> CHR ''#''" and "c \<noteq> CHR ''+''" and "c \<noteq> CHR ''-''"
    and "c \<noteq> CHR ''x''" and "c \<noteq> CHR ''X''" and "c \<noteq> CHR ''_''"
  using assms unfolding is_hex_digit_iff is_space_def is_quote_def is_int_space_def
  by auto

lemma strip_unchanged:
  assumes "s \<noteq> []" and "\<not> p (hd s)" and "\<not> p (last s)"
  shows "strip p s = s"
proof -
  have 1: "dropWhile p s = s"
    using assms(1,2) by (cases s) simp_all
  have "rev s \<noteq> []" and "\<not> p (hd (rev s))"
    using assms(1,3) by (simp_all add: hd_rev)
  then have 2: "dropWhile p (rev s) = rev s"
    by (cases "rev s") simp_all
  show ?thesis
    by (simp add: strip_def 1 2)
qed

lemma no_double_underscore: "CHR ''_'' \<notin> set s \<Longrightarrow> \<not> double_underscore s"
  by (induction s rule: double_underscore.induct) auto

lemma int16_hex_digits:
  assumes "s \<noteq> []" and "\<forall>c \<in> set s. is_hex_digit c"
  shows "int16 s = Some (int (digits_value s))"
proof -
  obtain a r where s: "s = a # r"
    using assms(1) by (cases s) auto
  have a: "is_hex_digit a"
    using assms(2) s by simp
  have sp: "dropWhile is_int_space s = s"
    using a s by (simp add: hex_digit_not_other)
  have sg: "take_sign s = (False, s)"
    using a s by (simp add: take_sign_def hex_digit_not_other)
  have "\<not> startswith s ''0x''" and "\<not> startswith s ''0X''"
    using assms(2) s by (cases r; auto simp add: startswith_def dest: hex_digit_not_other)+
  then have pf: "take_prefix s = s"
    by (simp add: take_prefix_def)
  have all: "\<forall>c \<in> set s. is_digit_or_underscore c"
    using assms(2) by (simp add: is_digit_or_underscore_def)
  have bd: "takeWhile is_digit_or_underscore s = s"
    using all by (simp add: takeWhile_eq_all_conv)
  have rs: "dropWhile is_digit_or_underscore s = []"
    using all by simp
  have nu: "CHR ''_'' \<notin> set s"
    using assms(2) hex_digit_not_other(9) by blast
  have h: "hd s \<noteq> CHR ''_''" and l: "last s \<noteq> CHR ''_''"
    using nu assms(1) by (metis hd_in_set, metis last_in_set)
  show ?thesis
    using assms(1) h l no_double_underscore [OF nu]
    by (simp add: int16_def sp sg pf bd rs)
qed

lemma normalize_hex_digits:
  assumes "length s = 6" and "\<forall>c \<in> set s. is_hex_digit c"
  shows "normalize_hex_color (CHR ''#'' # s) = Some (CHR ''#'' # s)"
proof -
  let ?v = "CHR ''#'' # s"
  have ne: "s \<noteq> []"
    using assms(1) by auto
  have l: "is_hex_digit (last s)"
    using assms(2) ne by simp
  have h: "\<not> is_space CHR ''#''" "\<not> is_quote CHR ''#''"
    by (simp_all add: is_space_def is_quote_def)
  have 1: "strip is_space ?v = ?v"
    by (rule strip_unchanged) (use ne l h in \<open>simp_all add: hex_digit_not_other\<close>)
  have 2: "strip is_quote ?v = ?v"
    by (rule strip_unchanged) (use ne l h in \<open>simp_all add: hex_digit_not_other\<close>)
  have 3: "\<not> startswith ?v ''0x''" and 4: "startswith ?v ''#''"
    by (simp_all add: startswith_def)
  show ?thesis
    using assms(1) int16_hex_digits [OF ne assms(2)]
    by (simp add: normalize_hex_color_def 1 2 3 4 Let_def)
qed

lemma is_hex_digit_simps [simp]:
  "is_hex_digit CHR ''0''" "is_hex_digit CHR ''1''" "is_hex_digit CHR ''2''"
  "is_hex_digit CHR ''3''" "is_hex_digit CHR ''4''" "is_hex_digit CHR ''5''"
  "is_hex_digit CHR ''6''" "is_hex_digit CHR ''7''" "is_hex_digit CHR ''8''"
  "is_hex_digit CHR ''9''" "is_hex_digit CHR ''a''" "is_hex_digit CHR ''b''"
  "is_hex_digit CHR ''c''" "is_hex_digit CHR ''d''" "is_hex_digit CHR ''e''"
  "is_hex_digit CHR ''f''" "is_hex_digit CHR ''A''" "is_hex_digit CHR ''B''"
  "is_hex_digit CHR ''C''" "is_hex_digit CHR ''D''" "is_hex_digit CHR ''E''"
  "is_hex_digit CHR ''F''"
  by (simp_all add: is_hex_digit_iff)

lemmas color_eval =
  normalize_hex_digits int16_hex_digits slice_def digits_value_def hex_digit_value_def

lemma generate_ui_colors_schedule:
  "generate_ui_colors colors is_light =
     surfaces_of (factor_schedule is_light)
       (get_or (scalars colors) ''background'' ''#1e1e2e'') is_light"
  by (cases is_light)
     (simp_all add: generate_ui_colors_def surfaces_of_def factor_schedule_def Let_def)

section \<open>The adjustment of a color of six hexadecimal digits\<close>

lemma hex_digit_value_range:
  assumes "is_hex_digit c"
  obtains d where "hex_digit_value c = Some d" and "d < 16"
  using assms unfolding is_hex_digit_iff by (auto simp add: hex_digit_value_def)

lemma digits_value_two:
  assumes "is_hex_digit a" and "is_hex_digit b"
  shows "digits_value [a, b] < 256"
proof -
  obtain da where a: "hex_digit_value a = Some da" "da < 16"
    using assms(1) by (rule hex_digit_value_range)
  obtain db where b: "hex_digit_value b = Some db" "db < 16"
    using assms(2) by (rule hex_digit_value_range)
  show ?thesis
    using a b by (simp add: digits_value_def)
qed

lemma hex_char_lower: "d < 16 \<Longrightarrow> is_lower_hex (hex_char d)"
proof -
  assume "d < 16"
  then have "d = 0 \<or> d = 1 \<or> d = 2 \<or> d = 3 \<or> d = 4 \<or> d = 5 \<or> d = 6 \<or> d = 7
    \<or> d = 8 \<or> d = 9 \<or> d = 10 \<or> d = 11 \<or> d = 12 \<or> d = 13 \<or> d = 14 \<or> d = 15"
    by presburger
  then show ?thesis
    by (elim disjE) (simp_all add: hex_char_def is_lower_hex_def)
qed

lemma format_02x_byte:
  assumes "0 \<le> n" and "n \<le> 255"
  shows "length (format_02x n) = 2 \<and> list_all is_lower_hex (format_02x n)"
proof (cases "n < 16")
  case True
  then have "hex_of_nat (nat n) = [hex_char (nat n)]" and "nat n < 16"
    using assms by (simp_all add: hex_of_nat.simps)
  moreover have "is_lower_hex CHR ''0''"
    by (simp add: is_lower_hex_def)
  ultimately show ?thesis
    using assms by (simp add: format_02x_def hex_char_lower)
next
  case False
  let ?m = "nat n"
  have m: "\<not> ?m < 16" "?m div 16 < 16" "?m mod 16 < 16"
    using False assms by simp_all
  have "hex_of_nat ?m = hex_of_nat (?m div 16) @ [hex_char (?m mod 16)]"
    using m(1) by (subst hex_of_nat.simps) simp
  also have "hex_of_nat (?m div 16) = [hex_char (?m div 16)]"
    using m(2) by (subst hex_of_nat.simps) simp
  finally have "hex_of_nat ?m = [hex_char (?m div 16), hex_char (?m mod 16)]"
    by simp
  then show ?thesis
    using assms m by (simp add: format_02x_def hex_char_lower)
qed

lemma rgb_to_hex_canonical:
  assumes "0 \<le> r" "r \<le> 255" "0 \<le> g" "g \<le> 255" "0 \<le> b" "b \<le> 255"
  shows "is_canonical_color (rgb_to_hex r g b)"
  using format_02x_byte [OF assms(1,2)] format_02x_byte [OF assms(3,4)]
    format_02x_byte [OF assms(5,6)]
  by (simp add: is_canonical_color_def rgb_to_hex_def)

lemma darken_range:
  assumes "0 \<le> c" "c \<le> 255" "0 \<le> factor" "factor \<le> 1"
  shows "0 \<le> max 0 (trunc (real_of_int c * (1 - factor)))"
    and "max 0 (trunc (real_of_int c * (1 - factor))) \<le> 255"
proof -
  have p: "0 \<le> real_of_int c * (1 - factor)"
    using assms by simp
  have "real_of_int c * (1 - factor) \<le> real_of_int c * 1"
    using assms by (intro mult_left_mono) simp_all
  then have "real_of_int c * (1 - factor) \<le> 255"
    using assms(2) by simp
  then have "\<lfloor>real_of_int c * (1 - factor)\<rfloor> \<le> 255"
    by (simp add: floor_le_iff)
  then show "max 0 (trunc (real_of_int c * (1 - factor))) \<le> 255"
    using p by (simp add: trunc_def)
  show "0 \<le> max 0 (trunc (real_of_int c * (1 - factor)))"
    by simp
qed

lemma lighten_range:
  assumes "0 \<le> c" "0 \<le> factor"
  shows "0 \<le> min 255 (trunc (real_of_int c * (1 + factor)))"
    and "min 255 (trunc (real_of_int c * (1 + factor))) \<le> 255"
proof -
  have p: "0 \<le> real_of_int c * (1 + factor)"
    using assms by simp
  then show "0 \<le> min 255 (trunc (real_of_int c * (1 + factor)))"
    by (simp add: trunc_def)
  show "min 255 (trunc (real_of_int c * (1 + factor))) \<le> 255"
    by simp
qed

lemma hex_to_rgb_hex_digits:
  assumes "length s = 6" and "\<forall>c \<in> set s. is_hex_digit c"
  obtains r g b where "hex_to_rgb (CHR ''#'' # s) = (r, g, b)"
    and "0 \<le> r" "r \<le> 255" "0 \<le> g" "g \<le> 255" "0 \<le> b" "b \<le> 255"
proof -
  obtain c1 c2 c3 c4 c5 c6 where s: "s = [c1, c2, c3, c4, c5, c6]"
    using assms(1) by (auto simp add: length_Suc_conv eval_nat_numeral)
  have d: "is_hex_digit c1" "is_hex_digit c2" "is_hex_digit c3" "is_hex_digit c4"
    "is_hex_digit c5" "is_hex_digit c6"
    using assms(2) s by simp_all
  have i: "int16 [c1, c2] = Some (int (digits_value [c1, c2]))"
    "int16 [c3, c4] = Some (int (digits_value [c3, c4]))"
    "int16 [c5, c6] = Some (int (digits_value [c5, c6]))"
    using d by (simp_all add: int16_hex_digits)
  have "hex_to_rgb (CHR ''#'' # s)
          = (int (digits_value [c1, c2]), int (digits_value [c3, c4]),
             int (digits_value [c5, c6]))"
    using normalize_hex_digits [OF assms] by (simp add: hex_to_rgb_def s slice_def i)
  moreover have "digits_value [c1, c2] < 256" "digits_value [c3, c4] < 256"
    "digits_value [c5, c6] < 256"
    using d by (simp_all add: digits_value_two)
  ultimately show ?thesis
    by (intro that [of "int (digits_value [c1, c2])" "int (digits_value [c3, c4])"
          "int (digits_value [c5, c6])"]) simp_all
qed

lemma adjust_color_canonical:
  assumes "length s = 6" and "\<forall>c \<in> set s. is_hex_digit c"
    and "0 \<le> factor" and "factor \<le> 1"
  shows "is_canonical_color (adjust_color_for_theme (CHR ''#'' # s) is_light factor)"
proof -
  obtain r g b where h: "hex_to_rgb (CHR ''#'' # s) = (r, g, b)"
    and c: "0 \<le> r" "r \<le> 255" "0 \<le> g" "g \<le> 255" "0 \<le> b" "b \<le> 255"
    using assms(1,2) by (rule hex_to_rgb_hex_digits)
  show ?thesis
  proof (cases is_light)
    case True
    then show ?thesis
      using normalize_hex_digits [OF assms(1,2)] h
      by (simp add: adjust_color_for_theme_def del: max.bounded_iff)
         (intro rgb_to_hex_canonical darken_range c assms(3,4))
  next
    case False
    then show ?thesis
      using normalize_hex_digits [OF assms(1,2)] h
      by (simp add: adjust_color_for_theme_def del: min.bounded_iff)
         (intro rgb_to_hex_canonical lighten_range c assms(3))
  qed
qed

lemma generate_ui_colors_canonical:
  assumes "scalars colors ''background'' = Some (CHR ''#'' # s)"
    and "length s = 6" and "\<forall>c \<in> set s. is_hex_digit c"
  shows "is_canonical_color (side_bg (generate_ui_colors colors is_light))"
    and "is_canonical_color (panel_bg (generate_ui_colors colors is_light))"
    and "is_canonical_color (tab_bg (generate_ui_colors colors is_light))"
    and "is_canonical_color (input_bg (generate_ui_colors colors is_light))"
    and "is_canonical_color (list_bg (generate_ui_colors colors is_light))"
    and "is_canonical_color (hover_bg (generate_ui_colors colors is_light))"
    and "is_canonical_color (border_color (generate_ui_colors colors is_light))"
  unfolding generate_ui_colors_schedule surfaces_of_def
  by (cases is_light;
      simp add: get_or_def assms(1) factor_schedule_def adjust_color_canonical [OF assms(2,3)])+

section \<open>Bounds on the contrast ratio\<close>

text \<open>
  The power \<open>x powr 2.4\<close> of a base in \<open>[0, 1]\<close> lies between the cube and the square
  of the base. These bounds settle the two comparisons that the claims need: the ratio
  of \<^verbatim>\<open>#ffffff\<close> and \<^verbatim>\<open>#fefefe\<close> (about 1.01) is below 2, the ratio of the fallback
  pair (about 13.4) is at least 3. Both are far from the thresholds, beyond any rounding
  of the floats of the program.
\<close>

lemma gamma_correct_bounds:
  assumes "0.03928 < c" and "c \<le> 1"
  shows "((c + 0.055) / 1.055) ^ 3 \<le> gamma_correct c"
    and "gamma_correct c \<le> ((c + 0.055) / 1.055) ^ 2"
proof -
  let ?b = "(c + 0.055) / 1.055"
  have b0: "0 \<le> ?b" and b1: "?b \<le> 1"
    using assms by simp_all
  have g: "gamma_correct c = ?b powr 2.4"
    using assms by (simp add: gamma_correct_def)
  have "?b powr 3 \<le> ?b powr 2.4"
    by (rule powr_mono' [OF _ b0 b1]) simp
  then show "?b ^ 3 \<le> gamma_correct c"
    using b0 g by simp
  have "?b powr 2.4 \<le> ?b powr 2"
    by (rule powr_mono' [OF _ b0 b1]) simp
  then show "gamma_correct c \<le> ?b ^ 2"
    using b0 g by simp
qed

lemma gamma_correct_one: "gamma_correct 1 = 1"
  by (simp add: gamma_correct_def)

lemma gamma_correct_zero: "gamma_correct 0 = 0"
  by (simp add: gamma_correct_def)

lemma luminance_ffffff: "get_luminance ''#ffffff'' = 1"
  by (simp add: get_luminance_def color_eval gamma_correct_one)

lemma luminance_fefefe:
  "get_luminance ''#fefefe'' = gamma_correct (254 / 255)"
  by (simp add: get_luminance_def color_eval)

lemma luminance_282a36:
  "get_luminance ''#282a36'' =
     0.2126 * gamma_correct (40 / 255) + 0.7152 * gamma_correct (42 / 255)
     + 0.0722 * gamma_correct (54 / 255)"
  by (simp add: get_luminance_def color_eval)

lemma luminance_f8f8f2:
  "get_luminance ''#f8f8f2'' =
     0.2126 * gamma_correct (248 / 255) + 0.7152 * gamma_correct (248 / 255)
     + 0.0722 * gamma_correct (242 / 255)"
  by (simp add: get_luminance_def color_eval)

lemma contrast_ffffff_fefefe: "calculate_contrast_ratio ''#ffffff'' ''#fefefe'' < 2"
proof -
  have lo: "((254 / 255 + 0.055) / 1.055) ^ 3 \<le> gamma_correct (254 / 255)"
    by (rule gamma_correct_bounds(1)) simp_all
  have hi: "gamma_correct (254 / 255) \<le> ((254 / 255 + 0.055) / 1.055) ^ 2"
    by (rule gamma_correct_bounds(2)) simp_all
  have l: "(0.475::real) < gamma_correct (254 / 255)"
    using lo by (simp add: power3_eq_cube)
  have h: "gamma_correct (254 / 255) < (1::real)"
    using hi by (simp add: power2_eq_square)
  show ?thesis
    using l h
    by (simp add: calculate_contrast_ratio_def luminance_ffffff luminance_fefefe Let_def
        field_simps)
qed

lemma contrast_fallback_pair: "3 \<le> calculate_contrast_ratio ''#282a36'' ''#f8f8f2''"
proof -
  have r: "gamma_correct (40 / 255) \<le> ((40 / 255 + 0.055) / 1.055) ^ 2"
    by (rule gamma_correct_bounds(2)) simp_all
  have g: "gamma_correct (42 / 255) \<le> ((42 / 255 + 0.055) / 1.055) ^ 2"
    by (rule gamma_correct_bounds(2)) simp_all
  have b: "gamma_correct (54 / 255) \<le> ((54 / 255 + 0.055) / 1.055) ^ 2"
    by (rule gamma_correct_bounds(2)) simp_all
  have w: "((248 / 255 + 0.055) / 1.055) ^ 3 \<le> gamma_correct (248 / 255)"
    by (rule gamma_correct_bounds(1)) simp_all
  have y: "((242 / 255 + 0.055) / 1.055) ^ 3 \<le> gamma_correct (242 / 255)"
    by (rule gamma_correct_bounds(1)) simp_all
  have r': "gamma_correct (40 / 255) \<le> 0.05" using r by (simp add: power2_eq_square)
  have g': "gamma_correct (42 / 255) \<le> 0.05" using g by (simp add: power2_eq_square)
  have b': "gamma_correct (54 / 255) \<le> 0.07" using b by (simp add: power2_eq_square)
  have w': "0.9 \<le> gamma_correct (248 / 255)" using w by (simp add: power3_eq_cube)
  have y': "0.8 \<le> gamma_correct (242 / 255)" using y by (simp add: power3_eq_cube)
  have dark: "get_luminance ''#282a36'' \<le> 0.06"
    unfolding luminance_282a36 using r' g' b' by simp
  have light: "0.89 \<le> get_luminance ''#f8f8f2''"
    unfolding luminance_f8f8f2 using w' y' by simp
  have pos: "0 \<le> get_luminance ''#282a36''"
    unfolding luminance_282a36 by (simp add: gamma_correct_def)
  show ?thesis
    using dark light pos
    by (simp add: calculate_contrast_ratio_def Let_def field_simps)
qed


section \<open>The loops of the validation\<close>

lemma validate_section_result:
  "set names \<subseteq> dom fallback \<Longrightarrow>
   \<exists>fixed' new.
     validate_section sec fallback src names (fixed, issues) = Inr (fixed', issues @ new)
     \<and> dom fixed' = dom fixed \<union> set names
     \<and> (\<forall>i \<in> set new. \<exists>n v. i = Invalid (sec @ ''.'' @ n) v \<or> i = Missing (sec @ ''.'' @ n))"
proof (induction names arbitrary: fixed issues)
  case Nil
  then show ?case by simp
next
  case (Cons color_name names)
  from Cons.prems obtain d where d: "fallback color_name = Some d" and rest: "set names \<subseteq> dom fallback"
    by auto
  show ?case
  proof (cases "src color_name")
    case None
    from Cons.IH [OF rest, of "fixed(color_name \<mapsto> d)" "issues @ [Missing (sec @ ''.'' @ color_name)]"]
    obtain fixed' new where
      r: "validate_section sec fallback src names
            (fixed(color_name \<mapsto> d), issues @ [Missing (sec @ ''.'' @ color_name)])
          = Inr (fixed', (issues @ [Missing (sec @ ''.'' @ color_name)]) @ new)"
      and dm: "dom fixed' = dom (fixed(color_name \<mapsto> d)) \<union> set names"
      and ni: "\<forall>i \<in> set new. \<exists>n v. i = Invalid (sec @ ''.'' @ n) v \<or> i = Missing (sec @ ''.'' @ n)"
      by blast
    show ?thesis
      apply (rule exI [of _ fixed'])
      apply (rule exI [of _ "Missing (sec @ ''.'' @ color_name) # new"])
      using r dm ni None d by auto
  next
    case (Some v)
    show ?thesis
    proof (cases "normalize_hex_color v")
      case None
      from Cons.IH [OF rest, of "fixed(color_name \<mapsto> d)" "issues @ [Invalid (sec @ ''.'' @ color_name) v]"]
      obtain fixed' new where
        r: "validate_section sec fallback src names
              (fixed(color_name \<mapsto> d), issues @ [Invalid (sec @ ''.'' @ color_name) v])
            = Inr (fixed', (issues @ [Invalid (sec @ ''.'' @ color_name) v]) @ new)"
        and dm: "dom fixed' = dom (fixed(color_name \<mapsto> d)) \<union> set names"
        and ni: "\<forall>i \<in> set new. \<exists>n v. i = Invalid (sec @ ''.'' @ n) v \<or> i = Missing (sec @ ''.'' @ n)"
        by blast
      show ?thesis
        apply (rule exI [of _ fixed'])
        apply (rule exI [of _ "Invalid (sec @ ''.'' @ color_name) v # new"])
        using r dm ni None Some d by auto
    next
      case (Some normalized)
      from Cons.IH [OF rest, of "fixed(color_name \<mapsto> normalized)" issues]
      obtain fixed' new where
        r: "validate_section sec fallback src names (fixed(color_name \<mapsto> normalized), issues)
            = Inr (fixed', issues @ new)"
        and dm: "dom fixed' = dom (fixed(color_name \<mapsto> normalized)) \<union> set names"
        and ni: "\<forall>i \<in> set new. \<exists>n v. i = Invalid (sec @ ''.'' @ n) v \<or> i = Missing (sec @ ''.'' @ n)"
        by blast
      show ?thesis
        apply (rule exI [of _ fixed'])
        apply (rule exI [of _ new])
        using r dm ni Some \<open>src color_name = Some v\<close> by auto
    qed
  qed
qed

lemma color_names_fallback_normal: "set color_names \<subseteq> dom fallback_normal"
  by (simp add: color_names_def fallback_normal_def)

lemma color_names_fallback_bright: "set color_names \<subseteq> dom fallback_bright"
  by (simp add: color_names_def fallback_bright_def)

lemma validate_primary_result:
  "\<exists>fixed issues bg fg cur.
     validate_primary sc [''background'', ''foreground'', ''cursor''] (Map.empty, []) = (fixed, issues)
     \<and> fixed ''background'' = Some bg \<and> fixed ''foreground'' = Some fg
     \<and> fixed ''cursor'' = Some cur
     \<and> (sc ''cursor'' = None \<longrightarrow>
          cur = fg \<and> Missing_derived ''cursor'' \<in> set issues \<and> Missing ''cursor'' \<notin> set issues)
     \<and> (\<forall>i \<in> set issues. i \<noteq> Applied_fallback \<and> (\<forall>r. i \<noteq> Low_contrast r))"
  by (cases "sc ''background''"; cases "sc ''foreground''"; cases "sc ''cursor''")
     (auto split: option.splits)

lemma section_key_not_cursor:
  "''normal'' @ ''.'' @ n \<noteq> ''cursor''" "''bright'' @ ''.'' @ n \<noteq> ''cursor''"
  by simp_all

lemma resolve_slots_result:
  "\<exists>fixed issues bg fg cur nm bm.
     resolve_slots colors = Inr (fixed, issues)
     \<and> scalars fixed ''background'' = Some bg \<and> scalars fixed ''foreground'' = Some fg
     \<and> scalars fixed ''cursor'' = Some cur
     \<and> normal_dict fixed = Some nm \<and> dom nm = set color_names
     \<and> bright_dict fixed = Some bm \<and> dom bm = set color_names
     \<and> (scalars colors ''cursor'' = None \<longrightarrow>
          cur = fg \<and> Missing_derived ''cursor'' \<in> set issues \<and> Missing ''cursor'' \<notin> set issues)
     \<and> (\<forall>i \<in> set issues. i \<noteq> Applied_fallback \<and> (\<forall>r. i \<noteq> Low_contrast r))"
proof -
  obtain fs i1 bg fg cur where
    p: "validate_primary (scalars colors) [''background'', ''foreground'', ''cursor'']
          (Map.empty, []) = (fs, i1)"
    and s: "fs ''background'' = Some bg" "fs ''foreground'' = Some fg" "fs ''cursor'' = Some cur"
    and c: "scalars colors ''cursor'' = None \<longrightarrow>
          cur = fg \<and> Missing_derived ''cursor'' \<in> set i1 \<and> Missing ''cursor'' \<notin> set i1"
    and k1: "\<forall>i \<in> set i1. i \<noteq> Applied_fallback \<and> (\<forall>r. i \<noteq> Low_contrast r)"
    using validate_primary_result [of "scalars colors"]
    by (elim exE conjE) (rule that, assumption+)
  obtain nm n2 where
    n: "validate_section ''normal'' fallback_normal (section_or_empty (normal_dict colors))
          color_names (Map.empty, i1) = Inr (nm, i1 @ n2)"
    and nd: "dom nm = dom (Map.empty :: string \<rightharpoonup> string) \<union> set color_names"
    and nk: "\<forall>i \<in> set n2. \<exists>n v. i = Invalid (''normal'' @ ''.'' @ n) v
                                  \<or> i = Missing (''normal'' @ ''.'' @ n)"
    using validate_section_result [OF color_names_fallback_normal, where sec = "''normal''"
        and src = "section_or_empty (normal_dict colors)" and fixed = Map.empty and issues = i1]
    by (elim exE conjE) (rule that, assumption+)
  obtain bm n3 where
    b: "validate_section ''bright'' fallback_bright (section_or_empty (bright_dict colors))
          color_names (Map.empty, i1 @ n2) = Inr (bm, (i1 @ n2) @ n3)"
    and bd: "dom bm = dom (Map.empty :: string \<rightharpoonup> string) \<union> set color_names"
    and bk: "\<forall>i \<in> set n3. \<exists>n v. i = Invalid (''bright'' @ ''.'' @ n) v
                                  \<or> i = Missing (''bright'' @ ''.'' @ n)"
    using validate_section_result [OF color_names_fallback_bright, where sec = "''bright''"
        and src = "section_or_empty (bright_dict colors)" and fixed = Map.empty
        and issues = "i1 @ n2"]
    by (elim exE conjE) (rule that, assumption+)
  have r: "resolve_slots colors
             = Inr (\<lparr> scalars = fs, normal_dict = Some nm, bright_dict = Some bm \<rparr>,
                    (i1 @ n2) @ n3)"
    by (simp only: resolve_slots_def p prod.case n sum.case b)
  have m2: "Missing ''cursor'' \<notin> set n2" "Missing_derived ''cursor'' \<notin> set n2"
    using nk by (fastforce simp add: section_key_not_cursor)+
  have m3: "Missing ''cursor'' \<notin> set n3"
    using bk by (fastforce simp add: section_key_not_cursor)
  have k2: "\<forall>i \<in> set n2. i \<noteq> Applied_fallback \<and> (\<forall>r. i \<noteq> Low_contrast r)"
    using nk by fastforce
  have k3: "\<forall>i \<in> set n3. i \<noteq> Applied_fallback \<and> (\<forall>r. i \<noteq> Low_contrast r)"
    using bk by fastforce
  show ?thesis
    apply (rule exI [of _ "\<lparr> scalars = fs, normal_dict = Some nm, bright_dict = Some bm \<rparr>"])
    apply (rule exI [of _ "(i1 @ n2) @ n3"])
    apply (rule exI [of _ bg], rule exI [of _ fg], rule exI [of _ cur])
    apply (rule exI [of _ nm], rule exI [of _ bm])
    using r s c k1 k2 k3 m2 m3 nd bd by auto
qed

lemmas validate_eval =
  resolve_slots_def color_names_def fallback_normal_def fallback_bright_def
  fallback_scalars_def fallback_background_def fallback_foreground_def
  get_or_def normalize_hex_digits

section \<open>The syntax rules\<close>

lemma slot_color_member:
  assumes "n \<in> set color_names" and "section_or_empty (normal_dict colors) n = Some v"
  shows "get_or (section_or_empty (normal_dict colors)) n d \<in> set (normal_slot_colors colors)"
proof -
  have "v \<in> set (List.map_filter (section_or_empty (normal_dict colors)) color_names)"
    unfolding map_filter_def using assms by force
  then show ?thesis
    using assms(2) by (simp add: normal_slot_colors_def get_or_def)
qed

section \<open>The theme document\<close>

lemmas entries_defs =
  customization_entries_def
  entries_editor_def entries_editor_group_def entries_breadcrumbs_def
  entries_sidebar_def entries_activity_bar_def entries_status_bar_def
  entries_title_bar_def entries_tabs_def entries_panel_def entries_terminal_def
  entries_input_def entries_dropdown_def entries_lists_def entries_ai_components_def
  entries_chat_interface_def entries_buttons_def entries_scrollbars_def
  entries_focus_and_borders_def entries_additional_ui_elements_def entries_widgets_def
  entries_editor_widgets_def entries_input_options_def entries_selection_def
  entries_editor_line_numbers_def entries_action_items_and_labels_def
  entries_codicon_elements_def entries_icon_colors_def entries_symbol_icon_theming_def
  entries_debug_icons_def entries_problem_icons_def entries_tree_icons_def
  entries_comments_icons_def

lemma map_of_dict_display_aux:
  "map_of (foldl (\<lambda>d (k, v). AList.update k v d) d0 es) k
     = foldl (\<lambda>acc (k', v). if k' = k then Some v else acc) (map_of d0 k) es"
  by (induction es arbitrary: d0) (auto simp add: update_conv')

lemma map_of_dict_display:
  "map_of (dict_display es) k = foldl (\<lambda>acc (k', v). if k' = k then Some v else acc) None es"
  by (simp add: dict_display_def map_of_dict_display_aux)

lemma ansi_entries:
  "map (map_of (dict_display (customization_entries bg fg cursor normal bright ui))) ansi_keys
     = [Some (get_or normal ''black'' ''#000000''), Some (get_or normal ''red'' ''#ff5555''),
        Some (get_or normal ''green'' ''#50fa7b''), Some (get_or normal ''yellow'' ''#f1fa8c''),
        Some (get_or normal ''blue'' ''#bd93f9''), Some (get_or normal ''magenta'' ''#ff79c6''),
        Some (get_or normal ''cyan'' ''#8be9fd''), Some (get_or normal ''white'' ''#f8f8f2''),
        Some (get_or bright ''black'' ''#6272a4''), Some (get_or bright ''red'' ''#ff6e6e''),
        Some (get_or bright ''green'' ''#69ff94''), Some (get_or bright ''yellow'' ''#ffffa5''),
        Some (get_or bright ''blue'' ''#d6acff''), Some (get_or bright ''magenta'' ''#ff92df''),
        Some (get_or bright ''cyan'' ''#a4ffff''), Some (get_or bright ''white'' ''#ffffff'')]"
  by (simp add: ansi_keys_def map_of_dict_display entries_defs)

lemma validate_minimal_raw:
  "validate_and_fix_colors minimal_raw =
     Inr (\<lparr> scalars = [''background'' \<mapsto> ''#282a36'', ''foreground'' \<mapsto> ''#f8f8f2'',
                       ''cursor'' \<mapsto> ''#f8f8f2''],
            normal_dict = Some fallback_normal, bright_dict = Some fallback_bright \<rparr>,
          [Missing_derived ''cursor'',
           Missing ''normal.black'', Missing ''normal.red'', Missing ''normal.green'',
           Missing ''normal.yellow'', Missing ''normal.blue'', Missing ''normal.magenta'',
           Missing ''normal.cyan'', Missing ''normal.white'',
           Missing ''bright.black'', Missing ''bright.red'', Missing ''bright.green'',
           Missing ''bright.yellow'', Missing ''bright.blue'', Missing ''bright.magenta'',
           Missing ''bright.cyan'', Missing ''bright.white''])"
proof -
  have c: "\<not> calculate_contrast_ratio ''#282a36'' ''#f8f8f2'' < 3"
    using contrast_fallback_pair by simp
  show ?thesis
    using c
    by (simp add: validate_and_fix_colors_def check_contrast_def minimal_raw_def validate_eval
        section_or_empty_def MIN_READABLE_CONTRAST_def)
qed

lemma dark_282a36: "\<not> is_light_theme ''#282a36''"
  by (simp add: is_light_theme_def hex_to_rgb_def color_eval)

section \<open>Claims\<close>

text \<open>
  C1, as the specification states it: in both classifications the factors are ordered
  hover \<open>\<ge>\<close> border \<open>\<ge>\<close> panel \<open>\<ge>\<close> side \<open>\<ge>\<close> tab \<open>\<ge>\<close> list \<open>\<ge>\<close> input. The schedule of
  the LIGHT classification refutes it: hover is 0.2 and border is 0.3.
\<close>

theorem C1_hover_border_counterexample:
  "\<not> (hover_factor (factor_schedule True) \<ge> border_factor (factor_schedule True)
      \<and> border_factor (factor_schedule True) \<ge> panel_factor (factor_schedule True)
      \<and> panel_factor (factor_schedule True) \<ge> side_factor (factor_schedule True)
      \<and> side_factor (factor_schedule True) \<ge> tab_factor (factor_schedule True)
      \<and> tab_factor (factor_schedule True) \<ge> list_factor (factor_schedule True)
      \<and> list_factor (factor_schedule True) \<ge> input_factor (factor_schedule True))"
  by (simp add: factor_schedule_def)

text \<open>
  C1, amended: for every palette and each classification, the seven surfaces of
  \<^const>\<open>generate_ui_colors\<close> are the background adjusted by the factors of the schedule,
  and these are ordered border \<open>\<ge>\<close> hover \<open>\<ge>\<close> panel \<open>\<ge>\<close> side \<open>\<ge>\<close> list \<open>\<ge>\<close> tab \<open>\<ge>\<close> input.
\<close>

theorem C1_factor_order:
  "generate_ui_colors colors is_light =
     surfaces_of (factor_schedule is_light)
       (get_or (scalars colors) ''background'' ''#1e1e2e'') is_light
   \<and> border_factor (factor_schedule is_light) \<ge> hover_factor (factor_schedule is_light)
   \<and> hover_factor (factor_schedule is_light) \<ge> panel_factor (factor_schedule is_light)
   \<and> panel_factor (factor_schedule is_light) \<ge> side_factor (factor_schedule is_light)
   \<and> side_factor (factor_schedule is_light) \<ge> list_factor (factor_schedule is_light)
   \<and> list_factor (factor_schedule is_light) \<ge> tab_factor (factor_schedule is_light)
   \<and> tab_factor (factor_schedule is_light) \<ge> input_factor (factor_schedule is_light)"
  using generate_ui_colors_schedule [of colors is_light]
  by (cases is_light) (simp_all add: factor_schedule_def)

text \<open>
  C5, as the specification states it: \<^verbatim>\<open>normalize_hex_color("0xAABBCC")\<close> is
  \<^verbatim>\<open>"#aabbcc"\<close>. The function keeps the case of the digits.
\<close>

theorem C5_lowercase_counterexample:
  "normalize_hex_color ''0xAABBCC'' \<noteq> Some ''#aabbcc''"
  by (simp add: normalize_hex_color_def string_defs)

text \<open>
  C5, amended: \<^verbatim>\<open>normalize_hex_color("0xAABBCC")\<close> is \<^verbatim>\<open>"#AABBCC"\<close>, with the case of
  the input; \<^verbatim>\<open>normalize_hex_color("#abc")\<close> is \<^verbatim>\<open>"#aabbcc"\<close>; and
  \<^verbatim>\<open>normalize_hex_color("not-a-color")\<close> is \<^verbatim>\<open>None\<close>.
\<close>

theorem C5_normalize_examples:
  "normalize_hex_color ''0xAABBCC'' = Some ''#AABBCC''
   \<and> normalize_hex_color ''#abc'' = Some ''#aabbcc''
   \<and> normalize_hex_color ''not-a-color'' = None"
  by (simp add: normalize_hex_color_def string_defs)

text \<open>
  C10: a background that fails normalization is classified DARK:
  \<^const>\<open>is_light_theme\<close> returns \<^term>\<open>False\<close>.
\<close>

theorem C10_invalid_background_dark:
  "normalize_hex_color background_color = None \<Longrightarrow> \<not> is_light_theme background_color"
  by (simp add: is_light_theme_def)

theorem C10_invalid_background_dark_witness:
  "normalize_hex_color [] = None \<and> \<not> is_light_theme []
   \<and> normalize_hex_color ''not-a-color'' = None \<and> \<not> is_light_theme ''not-a-color''"
proof -
  have e: "normalize_hex_color [] = None"
    by (simp add: normalize_hex_color_def)
  have m: "normalize_hex_color ''not-a-color'' = None"
    by (simp add: normalize_hex_color_def string_defs)
  show ?thesis
    using e m C10_invalid_background_dark [OF e] C10_invalid_background_dark [OF m] by simp
qed

text \<open>
  C2: once every slot is resolved, a contrast ratio of the resolved background and
  foreground strictly below 2.0 makes \<^const>\<open>validate_and_fix_colors\<close> overwrite both with
  the fallback pair and record, after the low-contrast issue, the issue
  \<^const>\<open>Applied_fallback\<close>, which no earlier step records. The witness is the palette with
  background \<^verbatim>\<open>#ffffff\<close> and foreground \<^verbatim>\<open>#fefefe\<close>.
\<close>

theorem C2_extreme_low_contrast:
  "\<exists>fixed issues bg fg.
     resolve_slots colors = Inr (fixed, issues)
     \<and> scalars fixed ''background'' = Some bg \<and> scalars fixed ''foreground'' = Some fg
     \<and> Applied_fallback \<notin> set issues
     \<and> (calculate_contrast_ratio bg fg < 2 \<longrightarrow>
          validate_and_fix_colors colors =
            Inr (fixed \<lparr> scalars := (scalars fixed)
                          (''background'' \<mapsto> fallback_background,
                           ''foreground'' \<mapsto> fallback_foreground) \<rparr>,
                 issues @ [Low_contrast (calculate_contrast_ratio bg fg), Applied_fallback]))"
proof -
  obtain fixed issues bg fg where
    r: "resolve_slots colors = Inr (fixed, issues)"
    and b: "scalars fixed ''background'' = Some bg"
    and f: "scalars fixed ''foreground'' = Some fg"
    and k: "\<forall>i \<in> set issues. i \<noteq> Applied_fallback \<and> (\<forall>r. i \<noteq> Low_contrast r)"
    using resolve_slots_result [of colors] by (elim exE conjE) (rule that, assumption+)
  have "calculate_contrast_ratio bg fg < 2 \<longrightarrow>
          validate_and_fix_colors colors =
            Inr (fixed \<lparr> scalars := (scalars fixed)
                          (''background'' \<mapsto> fallback_background,
                           ''foreground'' \<mapsto> fallback_foreground) \<rparr>,
                 issues @ [Low_contrast (calculate_contrast_ratio bg fg), Applied_fallback])"
    by (simp add: validate_and_fix_colors_def r check_contrast_def b f Let_def
        MIN_READABLE_CONTRAST_def MIN_ACCEPTABLE_CONTRAST_def)
  moreover have "Applied_fallback \<notin> set issues"
    using k by blast
  ultimately show ?thesis
    using r b f by blast
qed

theorem C2_extreme_low_contrast_witness:
  "calculate_contrast_ratio ''#ffffff'' ''#fefefe'' < 2
   \<and> (case validate_and_fix_colors
              \<lparr> scalars = [''background'' \<mapsto> ''#ffffff'', ''foreground'' \<mapsto> ''#fefefe''],
                normal_dict = None, bright_dict = None \<rparr> of
          Inl e \<Rightarrow> False
        | Inr (palette, issues) \<Rightarrow>
            scalars palette ''background'' = Some ''#282a36''
            \<and> scalars palette ''foreground'' = Some ''#f8f8f2''
            \<and> last issues = Applied_fallback)"
proof -
  let ?raw = "\<lparr> scalars = [''background'' \<mapsto> ''#ffffff'', ''foreground'' \<mapsto> ''#fefefe''],
                normal_dict = None, bright_dict = None \<rparr>"
  obtain fixed issues bg fg where
    r: "resolve_slots ?raw = Inr (fixed, issues)"
    and b: "scalars fixed ''background'' = Some bg"
    and f: "scalars fixed ''foreground'' = Some fg"
    and v: "calculate_contrast_ratio bg fg < 2 \<longrightarrow>
          validate_and_fix_colors ?raw =
            Inr (fixed \<lparr> scalars := (scalars fixed)
                          (''background'' \<mapsto> fallback_background,
                           ''foreground'' \<mapsto> fallback_foreground) \<rparr>,
                 issues @ [Low_contrast (calculate_contrast_ratio bg fg), Applied_fallback])"
    using C2_extreme_low_contrast [of ?raw] by (elim exE conjE) (rule that, assumption+)
  have "\<exists>F I. resolve_slots ?raw = Inr (F, I) \<and> scalars F ''background'' = Some ''#ffffff''
          \<and> scalars F ''foreground'' = Some ''#fefefe''"
    by (simp add: validate_eval section_or_empty_def)
  then have bg: "bg = ''#ffffff''" and fg: "fg = ''#fefefe''"
    using r b f by auto
  show ?thesis
    using v contrast_ffffff_fefefe
    by (simp add: bg fg fallback_background_def fallback_foreground_def)
qed

text \<open>
  C3: for a raw palette without any color field (no scalar entry, and the two sections
  absent or empty), \<^const>\<open>validate_and_fix_colors\<close> raises nothing and returns the palette
  of the fallback colors, with the cursor derived from the fallback foreground, all 16
  ANSI slots from the fallback tables, and 19 issues, one for each missing field.
\<close>

theorem C3_empty_palette:
  assumes "scalars colors = Map.empty"
    and "section_or_empty (normal_dict colors) = Map.empty"
    and "section_or_empty (bright_dict colors) = Map.empty"
  shows "\<exists>issues.
     validate_and_fix_colors colors =
       Inr (\<lparr> scalars = [''background'' \<mapsto> ''#282a36'', ''foreground'' \<mapsto> ''#f8f8f2'',
                         ''cursor'' \<mapsto> ''#f8f8f2''],
              normal_dict = Some fallback_normal, bright_dict = Some fallback_bright \<rparr>,
            issues)
     \<and> issues =
         [Missing ''background'', Missing ''foreground'', Missing_derived ''cursor'',
          Missing ''normal.black'', Missing ''normal.red'', Missing ''normal.green'',
          Missing ''normal.yellow'', Missing ''normal.blue'', Missing ''normal.magenta'',
          Missing ''normal.cyan'', Missing ''normal.white'',
          Missing ''bright.black'', Missing ''bright.red'', Missing ''bright.green'',
          Missing ''bright.yellow'', Missing ''bright.blue'', Missing ''bright.magenta'',
          Missing ''bright.cyan'', Missing ''bright.white'']
     \<and> 18 \<le> length issues"
proof -
  have c: "\<not> calculate_contrast_ratio ''#282a36'' ''#f8f8f2'' < 3"
    using contrast_fallback_pair by simp
  show ?thesis
    using c
    by (simp add: validate_and_fix_colors_def check_contrast_def assms validate_eval
        MIN_READABLE_CONTRAST_def)
qed

theorem C3_empty_palette_witness:
  "scalars \<lparr> scalars = Map.empty, normal_dict = None, bright_dict = None \<rparr> = Map.empty
   \<and> (case validate_and_fix_colors
              \<lparr> scalars = Map.empty, normal_dict = None, bright_dict = None \<rparr> of
          Inl e \<Rightarrow> False
        | Inr (palette, issues) \<Rightarrow>
            palette = \<lparr> scalars = [''background'' \<mapsto> ''#282a36'', ''foreground'' \<mapsto> ''#f8f8f2'',
                                   ''cursor'' \<mapsto> ''#f8f8f2''],
                         normal_dict = Some fallback_normal,
                         bright_dict = Some fallback_bright \<rparr>
            \<and> length issues = 19)"
  using C3_empty_palette [of "\<lparr> scalars = Map.empty, normal_dict = None, bright_dict = None \<rparr>"]
  by (auto simp add: section_or_empty_def)

text \<open>
  C8: when the raw palette has no cursor, the cursor returned is the foreground as
  resolved by the slot loop, the issue \<^term>\<open>Missing_derived ''cursor''\<close> is recorded, and the
  issue \<^term>\<open>Missing ''cursor''\<close> of the generic fallback branch is not.
\<close>

theorem C8_missing_cursor:
  assumes "scalars colors ''cursor'' = None"
  shows "\<exists>fixed issues fg palette issues'.
     resolve_slots colors = Inr (fixed, issues)
     \<and> scalars fixed ''foreground'' = Some fg
     \<and> validate_and_fix_colors colors = Inr (palette, issues')
     \<and> scalars palette ''cursor'' = Some fg
     \<and> Missing_derived ''cursor'' \<in> set issues'
     \<and> Missing ''cursor'' \<notin> set issues'"
proof -
  obtain fixed issues bg fg cur where
    r: "resolve_slots colors = Inr (fixed, issues)"
    and b: "scalars fixed ''background'' = Some bg"
    and f: "scalars fixed ''foreground'' = Some fg"
    and c: "scalars fixed ''cursor'' = Some cur"
    and m: "scalars colors ''cursor'' = None \<longrightarrow>
          cur = fg \<and> Missing_derived ''cursor'' \<in> set issues \<and> Missing ''cursor'' \<notin> set issues"
    using resolve_slots_result [of colors] by (elim exE conjE) (rule that, assumption+)
  have d: "cur = fg" "Missing_derived ''cursor'' \<in> set issues" "Missing ''cursor'' \<notin> set issues"
    using m assms by simp_all
  have "\<exists>palette issues'.
     validate_and_fix_colors colors = Inr (palette, issues')
     \<and> scalars palette ''cursor'' = Some fg
     \<and> Missing_derived ''cursor'' \<in> set issues'
     \<and> Missing ''cursor'' \<notin> set issues'"
    using c d
    by (simp add: validate_and_fix_colors_def r check_contrast_def b f Let_def)
  then show ?thesis
    using r f by blast
qed

theorem C8_missing_cursor_witness:
  "scalars \<lparr> scalars = [''background'' \<mapsto> ''#282a36'', ''foreground'' \<mapsto> ''#abcdef''],
             normal_dict = None, bright_dict = None \<rparr> ''cursor'' = None
   \<and> (case validate_and_fix_colors
              \<lparr> scalars = [''background'' \<mapsto> ''#282a36'', ''foreground'' \<mapsto> ''#abcdef''],
                normal_dict = None, bright_dict = None \<rparr> of
          Inl e \<Rightarrow> False
        | Inr (palette, issues) \<Rightarrow>
            scalars palette ''cursor'' = Some ''#abcdef''
            \<and> Missing_derived ''cursor'' \<in> set issues
            \<and> Missing ''cursor'' \<notin> set issues)"
proof -
  let ?raw = "\<lparr> scalars = [''background'' \<mapsto> ''#282a36'', ''foreground'' \<mapsto> ''#abcdef''],
                normal_dict = None, bright_dict = None \<rparr>"
  have h: "scalars ?raw ''cursor'' = None"
    by simp
  obtain fixed issues fg palette issues' where
    r: "resolve_slots ?raw = Inr (fixed, issues)"
    and f: "scalars fixed ''foreground'' = Some fg"
    and v: "validate_and_fix_colors ?raw = Inr (palette, issues')"
    and c: "scalars palette ''cursor'' = Some fg"
    and m: "Missing_derived ''cursor'' \<in> set issues'" "Missing ''cursor'' \<notin> set issues'"
    using C8_missing_cursor [OF h] by (elim exE conjE) (rule that, assumption+)
  have "\<exists>F I. resolve_slots ?raw = Inr (F, I) \<and> scalars F ''foreground'' = Some ''#abcdef''"
    by (simp add: validate_eval section_or_empty_def)
  then have "fg = ''#abcdef''"
    using r f by auto
  then show ?thesis
    using h v c m by simp
qed

text \<open>
  C6, as the specification states it: the foreground of every syntax rule is one of the
  colors of the normal-intensity slots. The fifth rule, for the scopes of variables,
  takes the foreground of the palette: with the foreground \<^verbatim>\<open>#ffffff\<close> and the fallback
  colors in the normal slots, its color is none of the slot colors.
\<close>

theorem C6_variable_rule_counterexample:
  "foreground
     (textMateRules
        (generate_vscode_theme ''t''
           \<lparr> scalars = [''background'' \<mapsto> ''#000000'', ''foreground'' \<mapsto> ''#ffffff'',
                        ''cursor'' \<mapsto> ''#ffffff''],
             normal_dict = Some fallback_normal, bright_dict = Some fallback_bright \<rparr>) ! 4)
   \<notin> set (normal_slot_colors
            \<lparr> scalars = [''background'' \<mapsto> ''#000000'', ''foreground'' \<mapsto> ''#ffffff'',
                         ''cursor'' \<mapsto> ''#ffffff''],
              normal_dict = Some fallback_normal, bright_dict = Some fallback_bright \<rparr>)"
  by (simp add: generate_vscode_theme_def text_mate_rules_def Let_def get_or_def
      normal_slot_colors_def section_or_empty_def color_names_def fallback_normal_def
      map_filter_def)

text \<open>
  C6, amended: for every palette whose section \<^verbatim>\<open>normal\<close> has the eight slots, there are
  ten rules, with the scopes of the source in the order of the source; the rule whose
  scopes are \<^verbatim>\<open>variable\<close>, \<^verbatim>\<open>variable.other\<close> and \<^verbatim>\<open>variable.parameter\<close> (the fifth, and
  the only one with these scopes) has the foreground of the palette, and each of the
  nine others has the color of one of the normal-intensity slots.
\<close>

theorem C6_rule_foregrounds:
  assumes "set color_names \<subseteq> dom (section_or_empty (normal_dict colors))"
  shows "length (textMateRules (generate_vscode_theme theme_name colors)) = 10
     \<and> foreground (textMateRules (generate_vscode_theme theme_name colors) ! 4)
         = get_or (scalars colors) ''foreground'' ''#cdd6f4''
     \<and> (\<forall>i < 10. i \<noteq> 4 \<longrightarrow>
           foreground (textMateRules (generate_vscode_theme theme_name colors) ! i)
             \<in> set (normal_slot_colors colors))
     \<and> map scope (textMateRules (generate_vscode_theme theme_name colors))
         = [[''comment'', ''punctuation.definition.comment'', ''comment.line'',
             ''comment.block''],
            [''string'', ''string.quoted'', ''string.quoted.single'',
             ''string.quoted.double''],
            [''constant.numeric'', ''constant.numeric.integer'', ''constant.numeric.float''],
            [''constant.language'', ''constant.character'', ''constant.character.escape''],
            [''variable'', ''variable.other'', ''variable.parameter''],
            [''keyword'', ''storage.type'', ''storage.modifier'', ''storage.class''],
            [''entity.name.function'', ''support.function'', ''meta.function-call''],
            [''entity.name.class'', ''entity.name.type'', ''support.class''],
            [''entity.name.tag'', ''support.type''],
            [''punctuation.definition.string'', ''punctuation.definition.parameters'']]
     \<and> (\<forall>r \<in> set (textMateRules (generate_vscode_theme theme_name colors)).
           if scope r = [''variable'', ''variable.other'', ''variable.parameter'']
           then foreground r = get_or (scalars colors) ''foreground'' ''#cdd6f4''
           else foreground r \<in> set (normal_slot_colors colors))"
proof -
  let ?normal = "section_or_empty (normal_dict colors)"
  have m: "get_or ?normal n d \<in> set (normal_slot_colors colors)" if "n \<in> set color_names" for n d
  proof -
    from that assms obtain v where "?normal n = Some v"
      by blast
    with that show ?thesis
      by (rule slot_color_member)
  qed
  have s: "get_or ?normal ''black'' d \<in> set (normal_slot_colors colors)"
    "get_or ?normal ''red'' d \<in> set (normal_slot_colors colors)"
    "get_or ?normal ''green'' d \<in> set (normal_slot_colors colors)"
    "get_or ?normal ''yellow'' d \<in> set (normal_slot_colors colors)"
    "get_or ?normal ''blue'' d \<in> set (normal_slot_colors colors)"
    "get_or ?normal ''magenta'' d \<in> set (normal_slot_colors colors)"
    "get_or ?normal ''cyan'' d \<in> set (normal_slot_colors colors)" for d
    by (rule m, simp add: color_names_def)+
  have r: "textMateRules (generate_vscode_theme theme_name colors)
             = text_mate_rules (get_or (scalars colors) ''foreground'' ''#cdd6f4'') ?normal"
    by (simp add: generate_vscode_theme_def Let_def)
  have i: "i < 10 \<Longrightarrow> i \<noteq> 4 \<Longrightarrow>
          foreground (text_mate_rules fg ?normal ! i) \<in> set (normal_slot_colors colors)" for i fg
    unfolding text_mate_rules_def
    by (cases i rule: nat.exhaust; simp add: s nth_Cons' )
  have sc: "map scope (text_mate_rules fg ?normal)
         = [[''comment'', ''punctuation.definition.comment'', ''comment.line'',
             ''comment.block''],
            [''string'', ''string.quoted'', ''string.quoted.single'',
             ''string.quoted.double''],
            [''constant.numeric'', ''constant.numeric.integer'', ''constant.numeric.float''],
            [''constant.language'', ''constant.character'', ''constant.character.escape''],
            [''variable'', ''variable.other'', ''variable.parameter''],
            [''keyword'', ''storage.type'', ''storage.modifier'', ''storage.class''],
            [''entity.name.function'', ''support.function'', ''meta.function-call''],
            [''entity.name.class'', ''entity.name.type'', ''support.class''],
            [''entity.name.tag'', ''support.type''],
            [''punctuation.definition.string'', ''punctuation.definition.parameters'']]" for fg
    by (simp add: text_mate_rules_def)
  have by_scope: "\<forall>r \<in> set (text_mate_rules fg ?normal).
           if scope r = [''variable'', ''variable.other'', ''variable.parameter'']
           then foreground r = fg
           else foreground r \<in> set (normal_slot_colors colors)" for fg
    by (simp add: text_mate_rules_def s)
  have l: "length (text_mate_rules fg ?normal) = 10"
    and v: "foreground (text_mate_rules fg ?normal ! 4) = fg" for fg
    by (simp_all add: text_mate_rules_def)
  show ?thesis
    unfolding r using l v i sc by_scope by blast
qed

theorem C6_rule_foregrounds_witness:
  "set color_names \<subseteq> dom (section_or_empty (normal_dict
       \<lparr> scalars = [''background'' \<mapsto> ''#000000'', ''foreground'' \<mapsto> ''#ffffff''],
         normal_dict = Some fallback_normal, bright_dict = Some fallback_bright \<rparr>))
   \<and> foreground (textMateRules (generate_vscode_theme ''t''
       \<lparr> scalars = [''background'' \<mapsto> ''#000000'', ''foreground'' \<mapsto> ''#ffffff''],
         normal_dict = Some fallback_normal, bright_dict = Some fallback_bright \<rparr>) ! 4)
       = ''#ffffff''
   \<and> foreground (textMateRules (generate_vscode_theme ''t''
       \<lparr> scalars = [''background'' \<mapsto> ''#000000'', ''foreground'' \<mapsto> ''#ffffff''],
         normal_dict = Some fallback_normal, bright_dict = Some fallback_bright \<rparr>) ! 0)
       \<in> set (normal_slot_colors
       \<lparr> scalars = [''background'' \<mapsto> ''#000000'', ''foreground'' \<mapsto> ''#ffffff''],
         normal_dict = Some fallback_normal, bright_dict = Some fallback_bright \<rparr>)
   \<and> map scope (textMateRules (generate_vscode_theme ''t''
       \<lparr> scalars = [''background'' \<mapsto> ''#000000'', ''foreground'' \<mapsto> ''#ffffff''],
         normal_dict = Some fallback_normal, bright_dict = Some fallback_bright \<rparr>)) ! 4
       = [''variable'', ''variable.other'', ''variable.parameter'']"
proof -
  let ?p = "\<lparr> scalars = [''background'' \<mapsto> ''#000000'', ''foreground'' \<mapsto> ''#ffffff''],
         normal_dict = Some fallback_normal, bright_dict = Some fallback_bright \<rparr>"
  have h: "set color_names \<subseteq> dom (section_or_empty (normal_dict ?p))"
    using color_names_fallback_normal by (simp add: section_or_empty_def)
  show ?thesis
    using h C6_rule_foregrounds [OF h, of "''t''"] by (simp add: get_or_def)
qed

text \<open>
  C4, as the specification states it: for the source that declares only the background
  \<^verbatim>\<open>#282a36\<close> and the foreground \<^verbatim>\<open>#f8f8f2\<close>, exactly 16 issues are recorded. The
  validation also records that the missing cursor was derived from the foreground.
\<close>

theorem C4_sixteen_issues_counterexample:
  "\<not> (case generate_from_raw ''t'' minimal_raw of
        Inl e \<Rightarrow> False
      | Inr (theme, issues, is_light) \<Rightarrow> length issues = 16)"
  by (simp add: generate_from_raw_def validate_minimal_raw)

text \<open>
  C4, amended: for that source, whatever the name of the theme, the pipeline raises
  nothing, the sixteen ANSI keys of the theme document have the colors of the fallback
  palette, exactly 17 issues are recorded (the cursor derived from the foreground, and
  the 16 missing ANSI slots), and the theme is classified DARK.
\<close>

theorem C4_minimal_source:
  "case generate_from_raw theme_name minimal_raw of
     Inl e \<Rightarrow> False
   | Inr (theme, issues, is_light) \<Rightarrow>
       map (map_of (colorCustomizations theme)) ansi_keys
         = map Some [''#21222c'', ''#ff5555'', ''#50fa7b'', ''#f1fa8c'',
                     ''#bd93f9'', ''#ff79c6'', ''#8be9fd'', ''#f8f8f2'',
                     ''#6272a4'', ''#ff6e6e'', ''#69ff94'', ''#ffffa5'',
                     ''#d6acff'', ''#ff92df'', ''#a4ffff'', ''#ffffff'']
       \<and> issues =
           [Missing_derived ''cursor'',
            Missing ''normal.black'', Missing ''normal.red'', Missing ''normal.green'',
            Missing ''normal.yellow'', Missing ''normal.blue'', Missing ''normal.magenta'',
            Missing ''normal.cyan'', Missing ''normal.white'',
            Missing ''bright.black'', Missing ''bright.red'', Missing ''bright.green'',
            Missing ''bright.yellow'', Missing ''bright.blue'', Missing ''bright.magenta'',
            Missing ''bright.cyan'', Missing ''bright.white'']
       \<and> length issues = 17
       \<and> \<not> is_light"
  by (simp add: generate_from_raw_def validate_minimal_raw generate_vscode_theme_def Let_def
      ansi_entries section_or_empty_def dark_282a36)
     (simp add: get_or_def fallback_normal_def fallback_bright_def dark_282a36)

text \<open>
  C7: normalization is idempotent on every input that it accepts. The code is not: on
  the input \<^verbatim>\<open> '#12345 ' \<close> (a space, a quoted value that ends with a space, a space), the
  value that a line \<^verbatim>\<open>black = " '#12345 ' "\<close> of a section has after the parser, the
  result is \<^verbatim>\<open>#12345\<close> followed by a space, because \<^verbatim>\<open>int(_, 16)\<close> accepts the trailing
  space; and that result is rejected when normalized again. (A canonical color is
  returned unchanged: lemma \<open>normalize_hex_digits\<close>.)
\<close>

theorem C7_trailing_space_not_idempotent:
  "normalize_hex_color (CHR '' '' # CHR 0x27 # ''#12345 '' @ [CHR 0x27, CHR '' ''])
     = Some ''#12345 ''
   \<and> normalize_hex_color ''#12345 '' = None"
  by (simp add: normalize_hex_color_def string_defs)

text \<open>
  C9: for an input that normalizes, \<^const>\<open>adjust_color_for_theme\<close> returns a canonical
  color. The code does not for \<^verbatim>\<open>#-a0000\<close>: \<^verbatim>\<open>int(_, 16)\<close> accepts the sign, so the value
  normalizes, its red channel is \<open>-10\<close>, the theme is DARK, the DARK branch has no
  lower clamp (the LIGHT branch has \<^verbatim>\<open>max(0, _)\<close>), and \<^verbatim>\<open>{r:02x}\<close> prints the sign.
  (For \<^verbatim>\<open>#\<close> and six hexadecimal digits, and a factor in \<open>[0, 1]\<close>, the result is
  canonical: lemmas \<open>adjust_color_canonical\<close> and \<open>generate_ui_colors_canonical\<close>.)
\<close>

theorem C9_negative_channel:
  "normalize_hex_color ''#-a0000'' = Some ''#-a0000''
   \<and> hex_to_rgb ''#-a0000'' = (- 10, 0, 0)
   \<and> \<not> is_light_theme ''#-a0000''
   \<and> adjust_color_for_theme ''#-a0000'' False 0.05 = ''#-a0000''
   \<and> border_color (generate_ui_colors
         \<lparr> scalars = [''background'' \<mapsto> ''#-a0000''], normal_dict = None, bright_dict = None \<rparr>
         False) = ''#-c0000''
   \<and> \<not> is_canonical_color ''#-a0000'' \<and> \<not> is_canonical_color ''#-c0000''"
proof -
  have n: "normalize_hex_color ''#-a0000'' = Some ''#-a0000''"
    by (simp add: normalize_hex_color_def string_defs)
  have i: "int16 ''-a'' = Some (- 10)" "int16 ''00'' = Some 0"
    by (simp_all add: string_defs)
  have h: "hex_to_rgb ''#-a0000'' = (- 10, 0, 0)"
    by (simp add: hex_to_rgb_def n i slice_def)
  have l: "\<not> is_light_theme ''#-a0000''"
    by (simp add: is_light_theme_def n h)
  have f: "format_02x (- 10) = ''-a''" "format_02x (- 12) = ''-c''" "format_02x 0 = ''00''"
    by (simp_all add: format_02x_def hex_of_nat.simps hex_char_def)
  have a: "adjust_color_for_theme ''#-a0000'' False 0.05 = ''#-a0000''"
    by (simp add: adjust_color_for_theme_def n h trunc_def rgb_to_hex_def f)
  have b: "adjust_color_for_theme ''#-a0000'' False 0.2 = ''#-c0000''"
    by (simp add: adjust_color_for_theme_def n h trunc_def rgb_to_hex_def f)
  have g: "border_color (generate_ui_colors
         \<lparr> scalars = [''background'' \<mapsto> ''#-a0000''], normal_dict = None, bright_dict = None \<rparr>
         False) = ''#-c0000''"
    using b by (simp add: generate_ui_colors_def get_or_def Let_def)
  have c: "\<not> is_canonical_color ''#-a0000''" "\<not> is_canonical_color ''#-c0000''"
    by (simp_all add: is_canonical_color_def is_lower_hex_def)
  show ?thesis
    using n h l a g c by simp
qed


end
